theory Spec2Isabelle
  imports Main "HOL-Library.Word"
begin

unbundle bit_operations_syntax

section \<open>CCI over Ethernet: the receive path (ccieth\_recv.c)\<close>

text \<open>
  The kernel driver receives a frame as an \<open>sk_buff\<close>. Only its linear contents matter
  here: \<open>skb->len\<close> is the length of \<open>skb_bytes\<close>. The wire structure
  \<open>struct ccieth_pkt_header_msg\<close> is declared in ccieth\_wire.h, so its size and the
  decoding of its fields (after \<open>ntohl\<close>) are parameters of the model, collected in
  \<open>wire_format\<close>.
\<close>

type_synonym u8 = "8 word"
type_synonym u32 = "32 word"
type_synonym u64 = "64 word"

record sk_buff =
  skb_bytes :: "u8 list"

record ccieth_pkt_header_msg =
  dst_ep_id :: u32
  dst_conn_id :: u32
  msg_seqnum :: u32
  msg_len :: u32

record wire_format =
  hdr_size :: nat
  hdr_decode :: "u8 list \<Rightarrow> ccieth_pkt_header_msg"

text \<open>Linux errno values used by the driver (asm-generic/errno-base.h).\<close>

definition ENOMEM :: int where "ENOMEM = 12"
definition EFAULT :: int where "EFAULT = 14"
definition EINVAL :: int where "EINVAL = 22"

datatype ccieth_connection_status =
    CCIETH_CONNECTION_REQUESTED
  | CCIETH_CONNECTION_READY
  | CCIETH_CONNECTION_OTHER nat

datatype ccieth_connect_attr =
    CCIETH_CONNECT_ATTR_RO
  | CCIETH_CONNECT_ATTR_RU
  | CCIETH_CONNECT_ATTR_UU

datatype ccieth_event_type = CCIETH_IOCTL_EVENT_RECV | CCIETH_IOCTL_EVENT_OTHER nat

record ccieth_endpoint_event =
  ev_type :: ccieth_event_type
  ev_data_length :: u32
  ev_recv_user_conn_id :: u64
  ev_payload :: "u8 list"

record ccieth_connection =
  conn_status :: ccieth_connection_status
  conn_attribute :: ccieth_connect_attr
  user_conn_id :: u64
  deferred_recv :: "sk_buff list"

record ccieth_endpoint =
  ep_ifp :: "nat option"
  ep_max_send_size :: u32
  free_event_list :: "ccieth_endpoint_event list"
  event_list :: "ccieth_endpoint_event list"
  connection_idr :: "u32 \<Rightarrow> ccieth_connection option"

text \<open>
  The driver's global state: the endpoint table \<open>ccieth_ep_idr\<close>, and the frames the
  driver has handed to the network device for transmission. Nothing in ccieth\_recv.c
  transmits, so no function below touches \<open>xmit_queue\<close>.
\<close>

record ccieth_state =
  ccieth_ep_idr :: "u32 \<Rightarrow> ccieth_endpoint option"
  xmit_queue :: "sk_buff list"

datatype kernel_bug = BUG_ON

text \<open>
  \<open>skb_header_pointer(skb, offset, len, buf)\<close> returns NULL when the frame holds fewer
  than \<open>offset + len\<close> bytes, and a pointer to the bytes otherwise.
\<close>

definition skb_header_pointer :: "sk_buff \<Rightarrow> nat \<Rightarrow> nat \<Rightarrow> u8 list option" where
  "skb_header_pointer skb off len =
     (if length (skb_bytes skb) < off + len then None
      else Some (take len (drop off (skb_bytes skb))))"

text \<open>
  \<open>skb_copy_bits(skb, offset, to, len)\<close> returns \<open>-EFAULT\<close> when
  \<open>offset > skb->len - len\<close> and copies \<open>len\<close> bytes from \<open>offset\<close> otherwise,
  returning 0. Offsets and lengths are natural numbers here: a frame is far shorter than
  \<open>2^31\<close> bytes, so the conversions to \<open>int\<close> at the call leave them as they are.
\<close>

definition skb_copy_bits :: "sk_buff \<Rightarrow> nat \<Rightarrow> nat \<Rightarrow> int \<times> u8 list" where
  "skb_copy_bits skb off len =
     (if length (skb_bytes skb) < off + len then (- EFAULT, [])
      else (0, take len (drop off (skb_bytes skb))))"

text \<open>
  \<open>ccieth__recv_msg\<close>: take an event slot from the free list, fill it from the frame
  and append it to the endpoint's event list. The frame is freed on every path.
\<close>

definition ccieth__recv_msg ::
  "wire_format \<Rightarrow> ccieth_endpoint \<Rightarrow> ccieth_connection \<Rightarrow> ccieth_pkt_header_msg \<Rightarrow> sk_buff
     \<Rightarrow> kernel_bug + (int \<times> ccieth_endpoint)" where
  "ccieth__recv_msg fmt ep conn hdr skb =
     (case free_event_list ep of
        [] \<Rightarrow> Inr (- ENOMEM, ep)
      | event # rest \<Rightarrow>
          (let ep1 = ep\<lparr>free_event_list := rest\<rparr>;
               event1 = event\<lparr>ev_type := CCIETH_IOCTL_EVENT_RECV,
                               ev_data_length := msg_len hdr\<rparr>;
               (err, copied) = skb_copy_bits skb (hdr_size fmt) (unat (msg_len hdr))
           in if err < 0 then Inl BUG_ON
              else
                (let event2 = event1\<lparr>ev_payload := copied,
                                      ev_recv_user_conn_id := user_conn_id conn\<rparr>
                 in Inr (0, ep1\<lparr>event_list := event_list ep1 @ [event2]\<rparr>))))"

text \<open>
  Modelled from the spec: the helper \<open>ccieth_conn_uu_defer_recv_msg\<close> is defined
  outside ccieth\_recv.c. The specification names a per-connection deferred-RX list for UU
  connections before the handshake completes; the helper queues the frame at the tail of
  that list.
\<close>

definition ccieth_conn_uu_defer_recv_msg :: "ccieth_connection \<Rightarrow> sk_buff \<Rightarrow> ccieth_connection" where
  "ccieth_conn_uu_defer_recv_msg conn skb = conn\<lparr>deferred_recv := deferred_recv conn @ [skb]\<rparr>"

definition put_endpoint :: "ccieth_state \<Rightarrow> u32 \<Rightarrow> ccieth_endpoint \<Rightarrow> ccieth_state" where
  "put_endpoint s eid ep = s\<lparr>ccieth_ep_idr := (ccieth_ep_idr s)(eid := Some ep)\<rparr>"

text \<open>
  \<open>ccieth_recv_msg\<close>: the handler of a MSG frame arriving on interface \<open>ifp\<close>. The
  sum \<open>sizeof(*hdr) + msg_len\<close> is computed in \<open>size_t\<close> (64 bits on the driver's
  targets) from a 32-bit length, so it does not wrap and is a sum of naturals here.
\<close>

definition ccieth_recv_msg ::
  "wire_format \<Rightarrow> nat \<Rightarrow> sk_buff \<Rightarrow> ccieth_state \<Rightarrow> kernel_bug + (int \<times> ccieth_state)" where
  "ccieth_recv_msg fmt ifp skb s =
     (case skb_header_pointer skb 0 (hdr_size fmt) of
        None \<Rightarrow> Inr (- EINVAL, s)
      | Some raw \<Rightarrow>
          (let hdr = hdr_decode fmt raw in
           case ccieth_ep_idr s (dst_ep_id hdr) of
             None \<Rightarrow> Inr (- EINVAL, s)
           | Some ep \<Rightarrow>
               if ep_ifp ep \<noteq> Some ifp then Inr (- EINVAL, s)
               else if ep_max_send_size ep < msg_len hdr
                       \<or> length (skb_bytes skb) < hdr_size fmt + unat (msg_len hdr)
               then Inr (- EINVAL, s)
               else
                 (case connection_idr ep (dst_conn_id hdr) of
                    None \<Rightarrow> Inr (- EINVAL, s)
                  | Some conn \<Rightarrow>
                      if conn_status conn = CCIETH_CONNECTION_READY then
                        (case ccieth__recv_msg fmt ep conn hdr skb of
                           Inl b \<Rightarrow> Inl b
                         | Inr (err, ep') \<Rightarrow> Inr (err, put_endpoint s (dst_ep_id hdr) ep'))
                      else if conn_status conn = CCIETH_CONNECTION_REQUESTED
                              \<and> conn_attribute conn = CCIETH_CONNECT_ATTR_UU then
                        Inr (0, put_endpoint s (dst_ep_id hdr)
                                  (ep\<lparr>connection_idr := (connection_idr ep)
                                        (dst_conn_id hdr :=
                                           Some (ccieth_conn_uu_defer_recv_msg conn skb))\<rparr>))
                      else Inr (- EINVAL, s))))"

text \<open>The events queued on every endpoint: what the application will be able to poll.\<close>

definition events_of :: "ccieth_state \<Rightarrow> u32 \<Rightarrow> ccieth_endpoint_event list" where
  "events_of s eid = (case ccieth_ep_idr s eid of None \<Rightarrow> [] | Some ep \<Rightarrow> event_list ep)"

text \<open>
  The frames waiting on the deferred list of connection \<open>cid\<close> of endpoint \<open>eid\<close>.
\<close>

definition deferred_of :: "ccieth_state \<Rightarrow> u32 \<Rightarrow> u32 \<Rightarrow> sk_buff list" where
  "deferred_of s eid cid =
     (case ccieth_ep_idr s eid of
        None \<Rightarrow> []
      | Some ep \<Rightarrow>
          (case connection_idr ep cid of None \<Rightarrow> [] | Some conn \<Rightarrow> deferred_recv conn))"

text \<open>The event a delivered frame leaves in the slot taken from the free list.\<close>

definition delivered_event ::
  "wire_format \<Rightarrow> ccieth_connection \<Rightarrow> ccieth_pkt_header_msg \<Rightarrow> sk_buff
     \<Rightarrow> ccieth_endpoint_event \<Rightarrow> ccieth_endpoint_event" where
  "delivered_event fmt conn hdr skb slot =
     slot\<lparr>ev_type := CCIETH_IOCTL_EVENT_RECV,
          ev_data_length := msg_len hdr,
          ev_payload := take (unat (msg_len hdr)) (drop (hdr_size fmt) (skb_bytes skb)),
          ev_recv_user_conn_id := user_conn_id conn\<rparr>"

subsection \<open>A small concrete configuration\<close>

text \<open>
  A toy wire format with a four-byte header (one byte per field), an endpoint with id 1
  on interface 0 holding a READY connection (id 1), a REQUESTED UU connection (id 2) and
  a REQUESTED RO connection (id 3), and frames addressed to them.
\<close>

definition toy_fmt :: wire_format where
  "toy_fmt = \<lparr>hdr_size = 4,
              hdr_decode = (\<lambda>raw. \<lparr>dst_ep_id = ucast (raw ! 0), dst_conn_id = ucast (raw ! 1),
                                    msg_seqnum = ucast (raw ! 2), msg_len = ucast (raw ! 3)\<rparr>)\<rparr>"

definition toy_slot :: ccieth_endpoint_event where
  "toy_slot = \<lparr>ev_type = CCIETH_IOCTL_EVENT_OTHER 0, ev_data_length = 0,
               ev_recv_user_conn_id = 0, ev_payload = []\<rparr>"

definition toy_conn :: "ccieth_connection_status \<Rightarrow> ccieth_connect_attr \<Rightarrow> ccieth_connection" where
  "toy_conn st at = \<lparr>conn_status = st, conn_attribute = at, user_conn_id = 77,
                     deferred_recv = []\<rparr>"

definition toy_conns :: "u32 \<Rightarrow> ccieth_connection option" where
  "toy_conns = (\<lambda>_. None)
     (1 := Some (toy_conn CCIETH_CONNECTION_READY CCIETH_CONNECT_ATTR_RU),
      2 := Some (toy_conn CCIETH_CONNECTION_REQUESTED CCIETH_CONNECT_ATTR_UU),
      3 := Some (toy_conn CCIETH_CONNECTION_REQUESTED CCIETH_CONNECT_ATTR_RO))"

definition toy_ep :: "ccieth_endpoint_event list \<Rightarrow> ccieth_endpoint" where
  "toy_ep free = \<lparr>ep_ifp = Some 0, ep_max_send_size = 8, free_event_list = free,
                  event_list = [], connection_idr = toy_conns\<rparr>"

definition toy_state :: "ccieth_endpoint_event list \<Rightarrow> ccieth_state" where
  "toy_state free = \<lparr>ccieth_ep_idr = (\<lambda>_. None)(1 := Some (toy_ep free)), xmit_queue = []\<rparr>"

definition toy_skb :: "u8 \<Rightarrow> u8 \<Rightarrow> sk_buff" where
  "toy_skb cid len = \<lparr>skb_bytes = [1, cid, 0, len, 170, 187]\<rparr>"

text \<open>
  A frame is addressed to connection \<open>conn\<close> of endpoint \<open>ep\<close> when it passes every
  check the handler makes before it looks at the connection's status: the header is
  complete, the endpoint exists on the receiving interface, the declared length fits,
  and the connection id is known.
\<close>

definition addressed_to ::
  "wire_format \<Rightarrow> nat \<Rightarrow> sk_buff \<Rightarrow> ccieth_state \<Rightarrow> u8 list \<Rightarrow> ccieth_endpoint
     \<Rightarrow> ccieth_connection \<Rightarrow> bool" where
  "addressed_to fmt ifp skb s raw ep conn \<longleftrightarrow>
       skb_header_pointer skb 0 (hdr_size fmt) = Some raw
     \<and> ccieth_ep_idr s (dst_ep_id (hdr_decode fmt raw)) = Some ep
     \<and> ep_ifp ep = Some ifp
     \<and> msg_len (hdr_decode fmt raw) \<le> ep_max_send_size ep
     \<and> hdr_size fmt + unat (msg_len (hdr_decode fmt raw)) \<le> length (skb_bytes skb)
     \<and> connection_idr ep (dst_conn_id (hdr_decode fmt raw)) = Some conn"

section \<open>The sock transport (core\_sock\_api.c)\<close>

subsection \<open>Status codes, attributes and flags (cci.h)\<close>

text \<open>
  \<open>cci_status_t\<close> is a C enumeration: the CCI-specific codes count up from 0 and the
  others take the value of the \<open>errno\<close> constant they are named after (Linux values).
  Functions return it as an \<open>int\<close>, and so does the model.
\<close>

definition EINTR :: int where "EINTR = 4"
definition ENODEV :: int where "ENODEV = 19"
definition EMSGSIZE :: int where "EMSGSIZE = 90"
definition ENOBUFS :: int where "ENOBUFS = 105"
definition ETIMEDOUT :: int where "ETIMEDOUT = 110"

definition CCI_SUCCESS :: int where "CCI_SUCCESS = 0"
definition CCI_ERROR :: int where "CCI_ERROR = 1"
definition CCI_ERR_DISCONNECTED :: int where "CCI_ERR_DISCONNECTED = 2"
definition CCI_ERR_RNR :: int where "CCI_ERR_RNR = 3"
definition CCI_ERR_NOT_IMPLEMENTED :: int where "CCI_ERR_NOT_IMPLEMENTED = 7"
definition CCI_EINVAL :: int where "CCI_EINVAL = EINVAL"
definition CCI_ETIMEDOUT :: int where "CCI_ETIMEDOUT = ETIMEDOUT"
definition CCI_ENOMEM :: int where "CCI_ENOMEM = ENOMEM"
definition CCI_ENODEV :: int where "CCI_ENODEV = ENODEV"
definition CCI_ENOBUFS :: int where "CCI_ENOBUFS = ENOBUFS"
definition CCI_EMSGSIZE :: int where "CCI_EMSGSIZE = EMSGSIZE"

text \<open>
  \<open>cci_conn_attribute_t\<close> is a plain enumeration; \<open>attr_value\<close> is the integer the
  compiler gives each enumerator.
\<close>

datatype cci_conn_attribute =
    CCI_CONN_ATTR_RO
  | CCI_CONN_ATTR_RU
  | CCI_CONN_ATTR_UU
  | CCI_CONN_ATTR_UU_MC_TX
  | CCI_CONN_ATTR_UU_MC_RX

fun attr_value :: "cci_conn_attribute \<Rightarrow> int" where
  "attr_value CCI_CONN_ATTR_RO = 0"
| "attr_value CCI_CONN_ATTR_RU = 1"
| "attr_value CCI_CONN_ATTR_UU = 2"
| "attr_value CCI_CONN_ATTR_UU_MC_TX = 3"
| "attr_value CCI_CONN_ATTR_UU_MC_RX = 4"

definition CCI_FLAG_BLOCKING :: int where "CCI_FLAG_BLOCKING = 1"
definition CCI_FLAG_NO_COPY :: int where "CCI_FLAG_NO_COPY = 2"
definition CCI_FLAG_SILENT :: int where "CCI_FLAG_SILENT = 8"

text \<open>
  The test the transport uses for "reliable", in \<open>sock_sendv\<close> and in
  \<open>sock_progress_queued\<close>:
  \<^verbatim>\<open>connection->attribute & CCI_CONN_ATTR_RO || connection->attribute & CCI_CONN_ATTR_RU\<close>
  An integer used as a condition in C is true when it is not 0.
\<close>

definition c_true :: "int \<Rightarrow> bool" where
  "c_true x \<longleftrightarrow> x \<noteq> 0"

definition is_reliable :: "cci_conn_attribute \<Rightarrow> bool" where
  "is_reliable a \<longleftrightarrow>
     c_true (attr_value a AND attr_value CCI_CONN_ATTR_RO)
   \<or> c_true (attr_value a AND attr_value CCI_CONN_ATTR_RU)"

subsection \<open>Descriptors, connections, endpoints\<close>

text \<open>
  The constants of core\_sock.h are parameters of the model: the sizes of the two wire
  headers, the progress frequency and the resend time, and the geometry of the id
  bitmap.
\<close>

record sock_consts =
  SOCK_BLOCK_SIZE :: nat
  SOCK_NUM_BLOCKS :: nat
  SOCK_PROG_FREQ :: int
  SOCK_RESEND_TIME :: int
  sizeof_sock_header :: int
  sizeof_sock_seq_ack :: int

datatype cci_event_type =
    CCI_EVENT_NONE
  | CCI_EVENT_SEND
  | CCI_EVENT_RECV
  | CCI_EVENT_CONNECT_SUCCESS
  | CCI_EVENT_CONNECT_TIMEOUT

datatype sock_msg_type =
    SOCK_MSG_SEND
  | SOCK_MSG_CONN_REQUEST
  | SOCK_MSG_CONN_REPLY
  | SOCK_MSG_CONN_ACK
  | SOCK_MSG_OTHER nat

datatype sock_tx_state = SOCK_TX_IDLE | SOCK_TX_QUEUED | SOCK_TX_PENDING | SOCK_TX_COMPLETED

text \<open>
  A TX descriptor \<open>sock_tx_t\<close> with its embedded event. Pointers to connections are
  ids into the connection table. The members of the event's \<open>info\<close> union that the
  code uses (\<open>send\<close> and \<open>other\<close>) are kept as separate fields. The counters and
  the length are integers without a width: their types are declared in core\_sock.h,
  which is not among the sources, and no property below depends on their overflow. Of
  the payload buffer only the length \<open>tx_len\<close> is kept.
\<close>

record sock_tx =
  tx_evt_type :: cci_event_type
  tx_send_connection :: nat
  tx_send_context :: nat
  tx_send_status :: int
  tx_other_context :: nat
  tx_other_connection :: nat
  tx_msg_type :: sock_msg_type
  tx_flags :: int
  tx_state :: sock_tx_state
  tx_len :: int
  tx_seq :: int
  tx_cycles :: int
  tx_resends :: int

text \<open>
  A connection: the public \<open>cci_connection_t\<close>, the private \<open>cci__conn_t\<close> and the
  transport's \<open>sock_conn_t\<close> reached through \<open>conn->priv\<close>, in one record.
\<close>

record sock_connection =
  sc_max_send_size :: u32
  sc_endpoint :: nat
  sc_attribute :: cci_conn_attribute
  sc_tx_timeout :: int
  sc_peer_id :: nat
  sc_seq :: int
  sc_ack :: int

text \<open>
  An endpoint: \<open>cci__ep_t\<close> with the \<open>sock_ep_t\<close> behind \<open>ep->priv\<close>. \<open>ep_evts\<close>
  is the queue of completed events (each the event embedded in a descriptor) and
  \<open>idle_txs\<close> the pool of idle descriptors.
\<close>

record sock_endpoint =
  ep_tx_timeout :: int
  ep_buffer_len :: int
  ep_evts :: "nat list"
  idle_txs :: "nat list"

text \<open>
  One call of \<open>sendto(2)\<close> either sends some bytes or fails with an \<open>errno\<close>. What
  the network will answer is not decided by the program: \<open>wire\<close> lists the outcomes of
  the \<open>sendto\<close> calls still to come. A call made when the list is used up counts as not
  having returned within the environment given (\<open>Diverged\<close> below).
\<close>

datatype sendto_result = Sent nat | Fails nat

text \<open>
  The state of the transport: whether \<open>sglobals\<close> is set, the device's two queues
  and its mutex, the descriptor, connection and endpoint tables, the outcomes of the
  \<open>sendto\<close> calls to come and \<open>errno\<close>. All endpoints sit on the one device.

  The queues are \<open>TAILQ\<close>s threaded through the descriptors; each is kept as the list
  of descriptor ids a traversal from its head meets, so \<open>TAILQ_INSERT_TAIL\<close> appends,
  \<open>TAILQ_INSERT_HEAD\<close> conses, \<open>TAILQ_REMOVE\<close> removes and \<open>TAILQ_EMPTY\<close> tests
  for the empty list. The two queues of the device and the idle pools share the link
  field \<open>dentry\<close> of the descriptor, and the event queues of the endpoints share the
  link field \<open>entry\<close> of the event embedded in it. This reading is exact as long as an
  element is linked through one field into one queue at a time. An insertion of an
  element that is still linked through the same field overwrites the links in use (a
  second \<open>TAILQ_INSERT_TAIL\<close> of the last element of a queue makes the element its own
  predecessor); what is left is not a queue, and the model stops there with
  \<open>Corrupted\<close>.

  \<open>sdev_lock\<close> tells whether \<open>sdev->lock\<close> is held. The model is of a single thread,
  and the mutex is a default one (\<open>pthread_mutex_init\<close> with no attributes): locking it
  while it is held means waiting for a release that only the waiting thread could
  perform, so the call of \<open>pthread_mutex_lock\<close> does not return. The other mutexes
  (\<open>ep->lock\<close>, \<open>sep->lock\<close>, \<open>sconn->lock\<close>) are each released right after the one
  queue operation or assignment they protect, so in one thread they are free whenever
  they are taken; they are left out.
\<close>

record sock_world =
  sglobals :: bool
  sdev_lock :: bool
  queued :: "nat list"
  pending :: "nat list"
  txs :: "nat \<Rightarrow> sock_tx"
  conns :: "nat \<Rightarrow> sock_connection"
  eps :: "nat \<Rightarrow> sock_endpoint"
  wire :: "sendto_result list"
  errno :: int

text \<open>
  How a call can fail to return a value: it does not return (a loop that does not end
  within the fuel or the environment it was given, or a wait for a mutex that is never
  released), undefined behaviour of C, a failed \<open>assert\<close>, or a queue whose links have
  been overwritten.
\<close>

datatype fault = Diverged | Undefined | Assert_failed | Corrupted

text \<open>The body of a loop either goes on to the next element or returns from the function.\<close>

datatype 'a flow = Next 'a | Return 'a

definition upd_tx :: "nat \<Rightarrow> (sock_tx \<Rightarrow> sock_tx) \<Rightarrow> sock_world \<Rightarrow> sock_world" where
  "upd_tx t f s = s\<lparr>txs := (txs s)(t := f (txs s t))\<rparr>"

definition upd_ep :: "nat \<Rightarrow> (sock_endpoint \<Rightarrow> sock_endpoint) \<Rightarrow> sock_world \<Rightarrow> sock_world" where
  "upd_ep e f s = s\<lparr>eps := (eps s)(e := f (eps s e))\<rparr>"

definition upd_conn ::
  "nat \<Rightarrow> (sock_connection \<Rightarrow> sock_connection) \<Rightarrow> sock_world \<Rightarrow> sock_world" where
  "upd_conn c f s = s\<lparr>conns := (conns s)(c := f (conns s c))\<rparr>"

text \<open>\<open>pthread_mutex_lock(&sdev->lock)\<close> and \<open>pthread_mutex_unlock(&sdev->lock)\<close>.\<close>

definition lock_sdev :: "sock_world \<Rightarrow> fault + sock_world" where
  "lock_sdev s = (if sdev_lock s then Inl Diverged else Inr (s\<lparr>sdev_lock := True\<rparr>))"

definition unlock_sdev :: "sock_world \<Rightarrow> sock_world" where
  "unlock_sdev s = s\<lparr>sdev_lock := False\<rparr>"

text \<open>
  Whether descriptor \<open>t\<close> is linked through \<open>dentry\<close> (on a queue of the device or on
  the idle pool of its endpoint \<open>e\<close>), and whether its event is linked through \<open>entry\<close>
  (on the event queue of \<open>e\<close>). The insertions below are the ones the transport
  performs: at the tail of the queued list, of the pending list and of an event queue,
  and at the head of an idle pool and of the queued list.
\<close>

definition dentry_linked :: "nat \<Rightarrow> nat \<Rightarrow> sock_world \<Rightarrow> bool" where
  "dentry_linked t e s \<longleftrightarrow>
     t \<in> set (queued s) \<or> t \<in> set (pending s) \<or> t \<in> set (idle_txs (eps s e))"

definition entry_linked :: "nat \<Rightarrow> nat \<Rightarrow> sock_world \<Rightarrow> bool" where
  "entry_linked t e s \<longleftrightarrow> t \<in> set (ep_evts (eps s e))"

definition insert_tail_evts :: "nat \<Rightarrow> nat \<Rightarrow> sock_world \<Rightarrow> fault + sock_world" where
  "insert_tail_evts t e s =
     (if entry_linked t e s then Inl Corrupted
      else Inr (upd_ep e (\<lambda>ep. ep\<lparr>ep_evts := ep_evts ep @ [t]\<rparr>) s))"

definition insert_head_idle :: "nat \<Rightarrow> nat \<Rightarrow> sock_world \<Rightarrow> fault + sock_world" where
  "insert_head_idle t e s =
     (if dentry_linked t e s then Inl Corrupted
      else Inr (upd_ep e (\<lambda>ep. ep\<lparr>idle_txs := t # idle_txs ep\<rparr>) s))"

definition insert_tail_queued :: "nat \<Rightarrow> nat \<Rightarrow> sock_world \<Rightarrow> fault + sock_world" where
  "insert_tail_queued t e s =
     (if dentry_linked t e s then Inl Corrupted else Inr (s\<lparr>queued := queued s @ [t]\<rparr>))"

definition insert_head_queued :: "nat \<Rightarrow> nat \<Rightarrow> sock_world \<Rightarrow> fault + sock_world" where
  "insert_head_queued t e s =
     (if dentry_linked t e s then Inl Corrupted else Inr (s\<lparr>queued := t # queued s\<rparr>))"

definition insert_tail_pending :: "nat \<Rightarrow> nat \<Rightarrow> sock_world \<Rightarrow> fault + sock_world" where
  "insert_tail_pending t e s =
     (if dentry_linked t e s then Inl Corrupted else Inr (s\<lparr>pending := pending s @ [t]\<rparr>))"

text \<open>
  \<open>TAILQ_REMOVE\<close> follows the links of the element it is given; applied to an element
  that is not on the queue it does not leave a queue either.
\<close>

definition remove_pending :: "nat \<Rightarrow> sock_world \<Rightarrow> fault + sock_world" where
  "remove_pending t s =
     (if t \<in> set (pending s) then Inr (s\<lparr>pending := remove1 t (pending s)\<rparr>)
      else Inl Corrupted)"

definition remove_evts :: "nat \<Rightarrow> nat \<Rightarrow> sock_world \<Rightarrow> fault + sock_world" where
  "remove_evts t e s =
     (if entry_linked t e s then Inr (upd_ep e (\<lambda>ep. ep\<lparr>ep_evts := remove1 t (ep_evts ep)\<rparr>) s)
      else Inl Corrupted)"

subsection \<open>sock\_sendto\<close>

text \<open>
  The loop of \<open>sock_sendto\<close>: \<open>ret\<close> and \<open>left\<close> are the C variables, \<open>eno\<close> is
  \<open>errno\<close>. It ends when nothing is left, or when \<open>sendto\<close> fails with anything but
  \<open>EINTR\<close>, in which case \<open>errno\<close> is what is returned.
\<close>

fun sendto_loop ::
  "sendto_result list \<Rightarrow> int \<Rightarrow> int \<Rightarrow> int \<Rightarrow> fault + (int \<times> int \<times> sendto_result list)" where
  "sendto_loop [] ret left eno = (if left = 0 then Inr (ret, eno, []) else Inl Diverged)"
| "sendto_loop (r # rs) ret left eno =
     (if left = 0 then Inr (ret, eno, r # rs)
      else (case r of
              Fails e \<Rightarrow>
                if int e = EINTR then sendto_loop rs (- 1) left (int e)
                else Inr (int e, int e, rs)
            | Sent n \<Rightarrow> sendto_loop rs (int n) (left - int n) eno))"

definition sock_sendto :: "int \<Rightarrow> sock_world \<Rightarrow> fault + (int \<times> sock_world)" where
  "sock_sendto len s =
     (case sendto_loop (wire s) 0 len (errno s) of
        Inl f \<Rightarrow> Inl f
      | Inr (ret, eno, rs) \<Rightarrow> Inr (ret, s\<lparr>wire := rs, errno := eno\<rparr>))"

text \<open>\<open>TAILQ_FOREACH_SAFE\<close>: run the body on each element, until one returns.\<close>

fun foreach_safe ::
  "(nat \<Rightarrow> sock_world \<Rightarrow> fault + sock_world flow) \<Rightarrow> nat list \<Rightarrow> sock_world
     \<Rightarrow> fault + sock_world flow" where
  "foreach_safe body [] s = Inr (Next s)"
| "foreach_safe body (t # ts) s =
     (case body t s of
        Inl f \<Rightarrow> Inl f
      | Inr (Return s') \<Rightarrow> Inr (Return s')
      | Inr (Next s') \<Rightarrow> foreach_safe body ts s')"

subsection \<open>The progress engine\<close>

text \<open>
  The body of the loop of \<open>sock_progress_pending\<close> for one in-flight descriptor
  \<open>t\<close>: count the cycle and the resend, expire the descriptor when
  \<^verbatim>\<open>tx->resends >= ep->tx_timeout || tx->resends >= conn->tx_timeout\<close>,
  and send it again otherwise. Giving up after a failed \<open>sendto\<close> releases the
  device's mutex and returns from the function.
\<close>

definition pending_expired :: "sock_tx \<Rightarrow> sock_endpoint \<Rightarrow> sock_connection \<Rightarrow> bool" where
  "pending_expired tx ep conn \<longleftrightarrow>
     ep_tx_timeout ep \<le> tx_resends tx \<or> sc_tx_timeout conn \<le> tx_resends tx"

definition sock_progress_pending_tx :: "nat \<Rightarrow> sock_world \<Rightarrow> fault + sock_world flow" where
  "sock_progress_pending_tx t s =
     (let c = tx_send_connection (txs s t);
          e = sc_endpoint (conns s c);
          s1 = upd_tx t (\<lambda>tx. tx\<lparr>tx_cycles := tx_cycles tx + 1\<rparr>) s;
          s2 = upd_tx t (\<lambda>tx. tx\<lparr>tx_resends := tx_resends tx + 1\<rparr>) s1
      in if pending_expired (txs s2 t) (eps s2 e) (conns s2 c) then
           (case remove_pending t s2 of
              Inl f \<Rightarrow> Inl f
            | Inr s3 \<Rightarrow>
                (case insert_tail_evts t e
                        (upd_tx t (\<lambda>tx. tx\<lparr>tx_send_status := CCI_ETIMEDOUT\<rparr>) s3) of
                   Inl f \<Rightarrow> Inl f
                 | Inr s5 \<Rightarrow> Inr (Next s5)))
         else
           (case sock_sendto (tx_len (txs s2 t)) s2 of
              Inl f \<Rightarrow> Inl f
            | Inr (ret, s3) \<Rightarrow>
                if ret = - 1 then
                  (if errno s3 = EINTR then
                     (if ret = tx_len (txs s2 t) then Inr (Next s3) else Inl Assert_failed)
                   else Inr (Return (unlock_sdev s3)))
                else Inr (Next s3)))"

text \<open>
  \<open>sock_progress_pending\<close> takes the device's mutex, walks the pending list and
  releases the mutex.
\<close>

definition sock_progress_pending :: "sock_world \<Rightarrow> fault + sock_world" where
  "sock_progress_pending s =
     (case lock_sdev s of
        Inl f \<Rightarrow> Inl f
      | Inr s0 \<Rightarrow>
          (case foreach_safe sock_progress_pending_tx (pending s0) s0 of
             Inl f \<Rightarrow> Inl f
           | Inr (Return s') \<Rightarrow> Inr s'
           | Inr (Next s') \<Rightarrow> Inr (unlock_sdev s')))"

text \<open>
  The timeout of a queued descriptor:
  \<^verbatim>\<open>timeout = conn->tx_timeout ? conn->tx_timeout : ep->tx_timeout;\<close>
  and the test \<^verbatim>\<open>tx->resends * SOCK_RESEND_TIME >= timeout\<close>.
\<close>

definition queued_timeout :: "sock_endpoint \<Rightarrow> sock_connection \<Rightarrow> int" where
  "queued_timeout ep conn =
     (if sc_tx_timeout conn \<noteq> 0 then sc_tx_timeout conn else ep_tx_timeout ep)"

definition queued_expired ::
  "sock_consts \<Rightarrow> sock_tx \<Rightarrow> sock_endpoint \<Rightarrow> sock_connection \<Rightarrow> bool" where
  "queued_expired k tx ep conn \<longleftrightarrow>
     queued_timeout ep conn \<le> tx_resends tx * SOCK_RESEND_TIME k"

text \<open>
  What \<open>sock_progress_queued\<close> does with an expired descriptor: set the status (or the
  event type, for the connection handshake), then either put a SILENT send on the idle
  pool or queue the completion event. An unknown message type returns from the
  function. The descriptor has not been taken off the queued list (the \<open>TAILQ_REMOVE\<close>
  is commented out), and the branch has no \<open>continue\<close>: the code then falls through to
  the transmission below.
\<close>

definition queued_expire :: "nat \<Rightarrow> nat \<Rightarrow> sock_world \<Rightarrow> fault + sock_world flow" where
  "queued_expire t e s =
     (let marked =
            (case tx_msg_type (txs s t) of
               SOCK_MSG_SEND \<Rightarrow>
                 Next (upd_tx t (\<lambda>tx. tx\<lparr>tx_send_status := CCI_ETIMEDOUT\<rparr>) s)
             | SOCK_MSG_CONN_REQUEST \<Rightarrow>
                 Next (upd_tx t (\<lambda>tx. tx\<lparr>tx_evt_type := CCI_EVENT_CONNECT_TIMEOUT\<rparr>) s)
             | SOCK_MSG_CONN_REPLY \<Rightarrow>
                 Next (upd_tx t (\<lambda>tx. tx\<lparr>tx_evt_type := CCI_EVENT_CONNECT_TIMEOUT\<rparr>) s)
             | SOCK_MSG_CONN_ACK \<Rightarrow>
                 Next (upd_tx t (\<lambda>tx. tx\<lparr>tx_evt_type := CCI_EVENT_CONNECT_TIMEOUT\<rparr>) s)
             | SOCK_MSG_OTHER n \<Rightarrow> Return s)
      in case marked of
           Return s' \<Rightarrow> Inr (Return s')
         | Next s1 \<Rightarrow>
             (case (if tx_msg_type (txs s1 t) = SOCK_MSG_SEND
                       \<and> (tx_flags (txs s1 t) AND CCI_FLAG_SILENT) \<noteq> 0
                    then insert_head_idle t e
                           (upd_tx t (\<lambda>tx. tx\<lparr>tx_state := SOCK_TX_IDLE\<rparr>) s1)
                    else insert_tail_evts t e
                           (upd_tx t (\<lambda>tx. tx\<lparr>tx_state := SOCK_TX_COMPLETED\<rparr>) s1)) of
                Inl f \<Rightarrow> Inl f
              | Inr s2 \<Rightarrow> Inr (Next s2)))"

text \<open>
  The transmission at label \<open>again\<close>: call \<open>sock_sendto\<close> for what is \<open>left\<close>; on
  \<open>-1\<close> either go on (\<open>EINTR\<close>) or take the device's mutex, put the descriptor at the
  head of the queued list, release the mutex and return; otherwise subtract the result
  from \<open>left\<close> and jump back to the label while something is left. \<open>send_once\<close> is one
  round: it ends the transmission (\<open>Inl\<close>) or asks for another round with the new
  \<open>left\<close> (\<open>Inr\<close>). Each jump back costs one unit of fuel.
\<close>

definition send_once ::
  "nat \<Rightarrow> nat \<Rightarrow> int \<Rightarrow> sock_world \<Rightarrow> fault + (sock_world flow + int \<times> sock_world)" where
  "send_once t e left s =
     (case sock_sendto left s of
        Inl f \<Rightarrow> Inl f
      | Inr (ret, s1) \<Rightarrow>
          if ret = - 1 then
            (if errno s1 = EINTR then Inr (Inl (Next s1))
             else (case lock_sdev s1 of
                     Inl f \<Rightarrow> Inl f
                   | Inr s2 \<Rightarrow>
                       (case insert_head_queued t e s2 of
                          Inl f \<Rightarrow> Inl f
                        | Inr s3 \<Rightarrow> Inr (Inl (Return (unlock_sdev s3))))))
          else if left - ret \<noteq> 0 then Inr (Inr (left - ret, s1))
          else Inr (Inl (Next s1)))"

fun send_again :: "nat \<Rightarrow> nat \<Rightarrow> nat \<Rightarrow> int \<Rightarrow> sock_world \<Rightarrow> fault + sock_world flow" where
  "send_again 0 t e left s =
     (case send_once t e left s of
        Inl f \<Rightarrow> Inl f
      | Inr (Inl done) \<Rightarrow> Inr done
      | Inr (Inr (left', s1)) \<Rightarrow> Inl Diverged)"
| "send_again (Suc fuel) t e left s =
     (case send_once t e left s of
        Inl f \<Rightarrow> Inl f
      | Inr (Inl done) \<Rightarrow> Inr done
      | Inr (Inr (left', s1)) \<Rightarrow> send_again fuel t e left' s1)"

text \<open>
  After the transmission:
  \<^verbatim>\<open>if (connection->attribute & CCI_CONN_ATTR_RO || connection->attribute & CCI_CONN_ATTR_RU)\<close>
  the descriptor becomes PENDING, the device's mutex is taken, the descriptor is
  appended to the pending list and the mutex is released; else the descriptor becomes
  COMPLETED and its event is appended to the endpoint's events. Neither branch takes the
  descriptor off the queued list.
\<close>

definition after_send :: "nat \<Rightarrow> nat \<Rightarrow> nat \<Rightarrow> sock_world \<Rightarrow> fault + sock_world" where
  "after_send t c e s =
     (if is_reliable (sc_attribute (conns s c)) then
        (case lock_sdev (upd_tx t (\<lambda>tx. tx\<lparr>tx_state := SOCK_TX_PENDING\<rparr>) s) of
           Inl f \<Rightarrow> Inl f
         | Inr s1 \<Rightarrow>
             (case insert_tail_pending t e s1 of
                Inl f \<Rightarrow> Inl f
              | Inr s2 \<Rightarrow> Inr (unlock_sdev s2)))
      else
        insert_tail_evts t e (upd_tx t (\<lambda>tx. tx\<lparr>tx_state := SOCK_TX_COMPLETED\<rparr>) s))"

text \<open>
  The body of the loop of \<open>sock_progress_queued\<close> for one queued descriptor. The
  remainder \<^verbatim>\<open>tx->cycles % SOCK_PROG_FREQ\<close> is only compared with 0, where the
  remainder of C and \<open>mod\<close> agree, except for a divisor of 0, which C leaves undefined.
\<close>

definition sock_progress_queued_tx ::
  "sock_consts \<Rightarrow> nat \<Rightarrow> nat \<Rightarrow> sock_world \<Rightarrow> fault + sock_world flow" where
  "sock_progress_queued_tx k fuel t s =
     (let c = (if tx_evt_type (txs s t) = CCI_EVENT_SEND then tx_send_connection (txs s t)
               else tx_other_connection (txs s t));
          e = sc_endpoint (conns s c);
          s1 = upd_tx t (\<lambda>tx. tx\<lparr>tx_cycles := tx_cycles tx + 1\<rparr>) s
      in if SOCK_PROG_FREQ k = 0 then Inl Undefined
         else if tx_cycles (txs s1 t) mod SOCK_PROG_FREQ k \<noteq> 0 then Inr (Next s1)
         else
           (let s2 = upd_tx t (\<lambda>tx. tx\<lparr>tx_resends := tx_resends tx + 1\<rparr>) s1 in
            case (if queued_expired k (txs s2 t) (eps s2 e) (conns s2 c)
                  then queued_expire t e s2 else Inr (Next s2)) of
              Inl f \<Rightarrow> Inl f
            | Inr (Return s3) \<Rightarrow> Inr (Return s3)
            | Inr (Next s3) \<Rightarrow>
                (case send_again fuel t e (tx_len (txs s3 t)) s3 of
                   Inl f \<Rightarrow> Inl f
                 | Inr (Return s4) \<Rightarrow> Inr (Return s4)
                 | Inr (Next s4) \<Rightarrow>
                     (case after_send t c e s4 of
                        Inl f \<Rightarrow> Inl f
                      | Inr s5 \<Rightarrow> Inr (Next s5)))))"

text \<open>
  The statement after the loop, \<^verbatim>\<open>while (!TAILQ_EMPTY(&sdev->queued));\<close>, has an
  empty body: it tests the queue head again and again.
\<close>

fun spin_while_queued :: "nat \<Rightarrow> sock_world \<Rightarrow> fault + sock_world" where
  "spin_while_queued 0 s = (if queued s \<noteq> [] then Inl Diverged else Inr s)"
| "spin_while_queued (Suc fuel) s = (if queued s \<noteq> [] then spin_while_queued fuel s else Inr s)"

text \<open>
  \<open>sock_progress_queued\<close> takes the device's mutex, walks the queued list and then waits
  for the list to be empty. It has no \<open>pthread_mutex_unlock\<close> of its own for the mutex it
  took (the one after the \<open>TAILQ_REMOVE\<close> is commented out too), so the loop body runs
  with the mutex held, and a return leaves it held.
\<close>

definition sock_progress_queued :: "sock_consts \<Rightarrow> nat \<Rightarrow> sock_world \<Rightarrow> fault + sock_world" where
  "sock_progress_queued k fuel s =
     (case lock_sdev s of
        Inl f \<Rightarrow> Inl f
      | Inr s0 \<Rightarrow>
          (case foreach_safe (sock_progress_queued_tx k fuel) (queued s0) s0 of
             Inl f \<Rightarrow> Inl f
           | Inr (Return s') \<Rightarrow> Inr s'
           | Inr (Next s') \<Rightarrow> spin_while_queued fuel s'))"

definition sock_progress_sends :: "sock_consts \<Rightarrow> nat \<Rightarrow> sock_world \<Rightarrow> fault + sock_world" where
  "sock_progress_sends k fuel s =
     (case sock_progress_pending s of
        Inl f \<Rightarrow> Inl f
      | Inr s1 \<Rightarrow> sock_progress_queued k fuel s1)"
subsection \<open>sock\_sendv and sock\_send\<close>

text \<open>
  The first loop of \<open>sock_sendv\<close> over the segments, each given by whether its pointer
  is non-null and by the 32 bits of its length, which the code reads as an \<open>int\<close>: a
  null pointer with a non-zero length is invalid; otherwise the lengths are added up in
  the \<open>int\<close> variable \<open>data_len\<close>, where a sum outside the range of \<open>int\<close> is
  undefined. The result is \<open>None\<close> for an invalid segment. (\<open>segment_cnt\<close> is a
  \<open>uint8_t\<close>, so the list has at most 255 entries.)
\<close>

fun total_data_len :: "(bool \<times> u32) list \<Rightarrow> int \<Rightarrow> fault + int option" where
  "total_data_len [] acc = Inr (Some acc)"
| "total_data_len ((ptr_set, len) # segs) acc =
     (if \<not> ptr_set \<and> len \<noteq> 0 then Inr None
      else if acc + sint len < - (2 ^ 31) \<or> 2 ^ 31 \<le> acc + sint len then Inl Undefined
      else total_data_len segs (acc + sint len))"

text \<open>
  \<open>header_len\<close> is a \<open>uint32_t\<close> and \<open>data_len\<close> an \<open>int\<close>: their sum is computed
  in \<open>unsigned int\<close>, that is modulo \<open>2^32\<close>, in the comparison with
  \<open>max_send_size\<close> (a \<open>uint32_t\<close>) as well as where it is added to \<open>tx->len\<close>. In
  \<^verbatim>\<open>len = sizeof(sock_header_t) + header_len + data_len;\<close> the sum is computed in
  \<open>size_t\<close> and stored in the \<open>int\<close> variable \<open>len\<close>, which keeps its low 32 bits
  as a signed number.
\<close>

definition payload_len :: "u32 \<Rightarrow> int \<Rightarrow> u32" where
  "payload_len header_len data_len = header_len + word_of_int data_len"

definition direct_len :: "sock_consts \<Rightarrow> u32 \<Rightarrow> int \<Rightarrow> int" where
  "direct_len k header_len data_len =
     sint (word_of_int (sizeof_sock_header k + uint header_len + data_len) :: u32)"

text \<open>
  The wait of a blocking send,
  \<^verbatim>\<open>while (tx->state != SOCK_TX_COMPLETED) usleep(SOCK_PROG_TIME / 2);\<close>
  In a single thread nothing changes the state while it waits.
\<close>

fun wait_completed :: "nat \<Rightarrow> nat \<Rightarrow> sock_world \<Rightarrow> fault + sock_world" where
  "wait_completed 0 t s =
     (if tx_state (txs s t) \<noteq> SOCK_TX_COMPLETED then Inl Diverged else Inr s)"
| "wait_completed (Suc fuel) t s =
     (if tx_state (txs s t) \<noteq> SOCK_TX_COMPLETED then wait_completed fuel t s else Inr s)"

text \<open>
  The end of a blocking send, once the descriptor is COMPLETED: read the status, take
  the event off the endpoint's events and put the descriptor at the head of the idle
  pool.
\<close>

definition sock_sendv_blocking ::
  "nat \<Rightarrow> nat \<Rightarrow> nat \<Rightarrow> sock_world \<Rightarrow> fault + (int \<times> sock_world)" where
  "sock_sendv_blocking fuel t e s =
     (case wait_completed fuel t s of
        Inl f \<Rightarrow> Inl f
      | Inr s1 \<Rightarrow>
          (case remove_evts t e s1 of
             Inl f \<Rightarrow> Inl f
           | Inr s2 \<Rightarrow>
               (case insert_head_idle t e s2 of
                  Inl f \<Rightarrow> Inl f
                | Inr s3 \<Rightarrow> Inr (tx_send_status (txs s1 t), s3))))"

text \<open>
  The second half of \<open>sock_sendv\<close>, from the comment "get a tx" on. The local variable
  \<open>tx\<close> is declared without an initialiser and is assigned only when the idle pool is
  not empty; \<open>tx0\<close> is the value it happens to hold before (\<open>None\<close> for a null
  pointer). The descriptor is filled in, appended to the queued list under the device's
  mutex, and the progress engine is run.
\<close>

definition sock_sendv_queue ::
  "sock_consts \<Rightarrow> nat \<Rightarrow> nat option \<Rightarrow> nat \<Rightarrow> u32 \<Rightarrow> int \<Rightarrow> nat \<Rightarrow> int \<Rightarrow> sock_world
     \<Rightarrow> fault + (int \<times> sock_world)" where
  "sock_sendv_queue k fuel tx0 c header_len data_len context flags s =
     (let e = sc_endpoint (conns s c);
          reliable = is_reliable (sc_attribute (conns s c));
          (tx, s1) = (case idle_txs (eps s e) of
                        [] \<Rightarrow> (tx0, s)
                      | t # rest \<Rightarrow> (Some t, upd_ep e (\<lambda>ep. ep\<lparr>idle_txs := rest\<rparr>) s))
      in case tx of
           None \<Rightarrow> Inr (CCI_ENOBUFS, s1)
         | Some t \<Rightarrow>
             (let s2 = upd_tx t (\<lambda>tx. tx\<lparr>tx_msg_type := SOCK_MSG_SEND, tx_flags := flags,
                                          tx_evt_type := CCI_EVENT_SEND,
                                          tx_send_connection := c,
                                          tx_send_context := context,
                                          tx_send_status := CCI_SUCCESS,
                                          tx_len := sizeof_sock_header k\<rparr>) s1;
                  s3 = (if reliable then
                          upd_conn c (\<lambda>conn. conn\<lparr>sc_seq := sc_seq conn + 1\<rparr>)
                            (upd_tx t (\<lambda>tx. tx\<lparr>tx_seq := sc_seq (conns s2 c),
                                                 tx_len := tx_len tx + sizeof_sock_seq_ack k\<rparr>) s2)
                        else s2);
                  s4 = upd_tx t (\<lambda>tx. tx\<lparr>tx_cycles := 0, tx_resends := 0,
                                          tx_len := tx_len tx
                                                    + uint (payload_len header_len data_len)\<rparr>) s3
              in if \<not> tx_len (txs s4 t) \<le> ep_buffer_len (eps s4 e) then Inl Assert_failed
                 else
                   (case lock_sdev (upd_tx t (\<lambda>tx. tx\<lparr>tx_state := SOCK_TX_QUEUED\<rparr>) s4) of
                      Inl f \<Rightarrow> Inl f
                    | Inr s5 \<Rightarrow>
                        (case insert_tail_queued t e s5 of
                           Inl f \<Rightarrow> Inl f
                         | Inr s6 \<Rightarrow>
                             (case sock_progress_sends k fuel (unlock_sdev s6) of
                                Inl f \<Rightarrow> Inl f
                              | Inr s7 \<Rightarrow>
                                  if \<not> reliable then Inr (CCI_SUCCESS, s7)
                                  else if (tx_flags (txs s7 t) AND CCI_FLAG_BLOCKING) \<noteq> 0
                                  then sock_sendv_blocking fuel t e s7
                                  else Inr (CCI_SUCCESS, s7))))))"

text \<open>
  \<open>sock_sendv\<close>. An unreliable send is first tried directly: the packet is built in a
  fresh buffer (\<open>calloc_ok\<close> says whether the allocation succeeds) and handed to
  \<open>sock_sendto\<close>; there the code writes \<open>tx->len\<close> through the still unassigned
  \<open>tx\<close>. Only a result of 0 ends the call; anything else falls through to the queue.
\<close>

definition sock_sendv ::
  "sock_consts \<Rightarrow> nat \<Rightarrow> nat option \<Rightarrow> bool \<Rightarrow> nat \<Rightarrow> u32 \<Rightarrow> (bool \<times> u32) list \<Rightarrow> nat \<Rightarrow> int
     \<Rightarrow> sock_world \<Rightarrow> fault + (int \<times> sock_world)" where
  "sock_sendv k fuel tx0 calloc_ok c header_len segs context flags s =
     (if \<not> sglobals s then Inr (CCI_ENODEV, s)
      else case total_data_len segs 0 of
        Inl f \<Rightarrow> Inl f
      | Inr None \<Rightarrow> Inr (CCI_EINVAL, s)
      | Inr (Some data_len) \<Rightarrow>
          if sc_max_send_size (conns s c) < payload_len header_len data_len
          then Inr (CCI_EMSGSIZE, s)
          else if \<not> is_reliable (sc_attribute (conns s c)) then
            (let len = direct_len k header_len data_len in
             if \<not> calloc_ok then Inr (CCI_ENOMEM, s)
             else case tx0 of
               None \<Rightarrow> Inl Undefined
             | Some g \<Rightarrow>
                 (case sock_sendto len (upd_tx g (\<lambda>tx. tx\<lparr>tx_len := len\<rparr>) s) of
                    Inl f \<Rightarrow> Inl f
                  | Inr (ret, s1) \<Rightarrow>
                      if ret = 0 then Inr (CCI_SUCCESS, s1)
                      else sock_sendv_queue k fuel tx0 c header_len data_len context flags s1))
          else sock_sendv_queue k fuel tx0 c header_len data_len context flags s)"

text \<open>
  \<open>sock_send\<close> passes its single buffer as a segment list of length 0 or 1:
  \<^verbatim>\<open>if (data_ptr && data_len) segment_cnt = 1;\<close>
  and hands the address of its \<open>uint32_t data_len\<close> on as an \<open>int *\<close>.
\<close>

definition sock_send ::
  "sock_consts \<Rightarrow> nat \<Rightarrow> nat option \<Rightarrow> bool \<Rightarrow> nat \<Rightarrow> u32 \<Rightarrow> bool \<Rightarrow> u32 \<Rightarrow> nat \<Rightarrow> int
     \<Rightarrow> sock_world \<Rightarrow> fault + (int \<times> sock_world)" where
  "sock_send k fuel tx0 calloc_ok c header_len data_ptr_set data_len context flags s =
     sock_sendv k fuel tx0 calloc_ok c header_len
       (if data_ptr_set \<and> data_len \<noteq> 0 then [(data_ptr_set, data_len)] else [])
       context flags s"

subsection \<open>sock\_rma\<close>

text \<open>
  \<open>sock_rma\<close> checks \<open>sglobals\<close> and returns \<open>CCI_ERR_NOT_IMPLEMENTED\<close>. It reads
  none of its arguments and writes nothing.
\<close>

definition sock_rma ::
  "nat \<Rightarrow> u32 \<Rightarrow> u64 \<Rightarrow> u64 \<Rightarrow> u64 \<Rightarrow> u64 \<Rightarrow> u64 \<Rightarrow> nat \<Rightarrow> int \<Rightarrow> sock_world
     \<Rightarrow> int \<times> sock_world" where
  "sock_rma c header_len local_handle local_offset remote_handle remote_offset data_len
       context flags s =
     (if \<not> sglobals s then (CCI_ENODEV, s) else (CCI_ERR_NOT_IMPLEMENTED, s))"

subsection \<open>sock\_getaddrinfo\<close>

text \<open>
  \<open>sock_getaddrinfo\<close> accepts a URI that starts with \<open>ip://\<close>, copies what follows
  into \<open>hostname\<close> and looks for a colon. The statement under the test,
  \<^verbatim>\<open>if (colon) colon = '\0';\<close>
  assigns to the local pointer \<open>colon\<close>, not to the character it points to, so
  \<open>hostname\<close> is handed to \<open>getaddrinfo\<close> as it is. The resolver of the C library is
  the parameter \<open>resolve\<close>: it returns its error code (0 for success) and the address.
\<close>

definition strchr :: "string \<Rightarrow> char \<Rightarrow> nat option" where
  "strchr str ch = (if ch \<in> set str then Some (length (takeWhile (\<lambda>x. x \<noteq> ch) str)) else None)"

definition sock_getaddrinfo :: "(string \<Rightarrow> int \<times> u32) \<Rightarrow> string \<Rightarrow> int \<times> u32 option" where
  "sock_getaddrinfo resolve uri =
     (if take 5 uri = ''ip://'' then
        (let hostname = drop 5 uri;
             colon = strchr hostname CHR '':'';
             colon = (if colon \<noteq> None then None else colon);
             (ret, addr) = resolve hostname
         in if ret \<noteq> 0 then (ret, None) else (CCI_SUCCESS, Some addr))
      else (CCI_EINVAL, None))"

text \<open>The host component of a URI \<open>ip://host:port\<close>: what stands before the first colon.\<close>

definition host_component :: "string \<Rightarrow> string" where
  "host_component uri = takeWhile (\<lambda>x. x \<noteq> CHR '':'') (drop 5 uri)"

subsection \<open>The id bitmap: sock\_get\_id and sock\_put\_id\<close>

text \<open>
  The bitmap \<open>ep->ids\<close> is an array of 64-bit words. The mask is written
  \<^verbatim>\<open>(1 << offset)\<close>, a shift of the \<open>int\<close> constant 1: it is defined for offsets
  below 31 only, and the result is widened to 64 bits for the bit operation.
\<close>

definition id_mask :: "nat \<Rightarrow> fault + u64" where
  "id_mask offset = (if offset < 31 then Inr (push_bit offset 1) else Inl Undefined)"

text \<open>
  \<open>sock_get_id\<close> draws from \<open>random()\<close> until it hits a clear bit; \<open>draws\<close> lists
  the numbers \<open>random()\<close> will return, and the loop has not ended within them when they
  are used up. Dividing by a block size of 0 and indexing the array beyond its end are
  undefined.
\<close>

fun sock_get_id :: "sock_consts \<Rightarrow> u64 list \<Rightarrow> nat list \<Rightarrow> fault + (nat \<times> u64 list)" where
  "sock_get_id k ids [] = Inl Diverged"
| "sock_get_id k ids (n # draws) =
     (let block = n div SOCK_BLOCK_SIZE k;
          offset = n mod SOCK_BLOCK_SIZE k
      in if SOCK_BLOCK_SIZE k = 0 \<or> length ids \<le> block then Inl Undefined
         else case id_mask offset of
           Inl f \<Rightarrow> Inl f
         | Inr m \<Rightarrow>
             if (ids ! block) AND m = 0 then
               Inr (block * SOCK_BLOCK_SIZE k + offset, ids[block := (ids ! block) OR m])
             else sock_get_id k ids draws)"

text \<open>
  \<open>sock_put_id\<close>, with its assertion
  \<^verbatim>\<open>assert((*b & (1 << offset)) == 1);\<close>
\<close>

definition sock_put_id :: "sock_consts \<Rightarrow> u64 list \<Rightarrow> nat \<Rightarrow> fault + u64 list" where
  "sock_put_id k ids ident =
     (let block = ident div SOCK_BLOCK_SIZE k;
          offset = ident mod SOCK_BLOCK_SIZE k
      in if SOCK_BLOCK_SIZE k = 0 \<or> length ids \<le> block then Inl Undefined
         else case id_mask offset of
           Inl f \<Rightarrow> Inl f
         | Inr m \<Rightarrow>
             if (ids ! block) AND m \<noteq> 1 then Inl Assert_failed
             else Inr (ids[block := (ids ! block) AND NOT m]))"

text \<open>Whether the bit of an id is set in the bitmap.\<close>

definition id_bit :: "sock_consts \<Rightarrow> u64 list \<Rightarrow> nat \<Rightarrow> bool" where
  "id_bit k ids ident \<longleftrightarrow>
     bit (ids ! (ident div SOCK_BLOCK_SIZE k)) (ident mod SOCK_BLOCK_SIZE k)"

subsection \<open>A small concrete configuration of the sock transport\<close>

text \<open>
  Constants for the examples (the real ones live in core\_sock.h): blocks of 64 ids,
  progress on every cycle, one time unit per resend, an 8-byte header and a 16-byte
  sequence/ack header.
\<close>

definition toy_consts :: sock_consts where
  "toy_consts = \<lparr>SOCK_BLOCK_SIZE = 64, SOCK_NUM_BLOCKS = 2, SOCK_PROG_FREQ = 1,
                 SOCK_RESEND_TIME = 1, sizeof_sock_header = 8, sizeof_sock_seq_ack = 16\<rparr>"

definition blank_tx :: sock_tx where
  "blank_tx = \<lparr>tx_evt_type = CCI_EVENT_NONE, tx_send_connection = 0, tx_send_context = 0,
               tx_send_status = 0, tx_other_context = 0, tx_other_connection = 0,
               tx_msg_type = SOCK_MSG_SEND, tx_flags = 0, tx_state = SOCK_TX_IDLE,
               tx_len = 0, tx_seq = 0, tx_cycles = 0, tx_resends = 0\<rparr>"

text \<open>
  A connection on endpoint 0 with the given attribute and send timeout, and an endpoint
  with send timeout 100 and the given pool of idle descriptors.
\<close>

definition toy_connection :: "cci_conn_attribute \<Rightarrow> int \<Rightarrow> sock_connection" where
  "toy_connection a timeout = \<lparr>sc_max_send_size = 1024, sc_endpoint = 0, sc_attribute = a,
                               sc_tx_timeout = timeout, sc_peer_id = 5, sc_seq = 0, sc_ack = 0\<rparr>"

definition toy_endpoint :: "nat list \<Rightarrow> sock_endpoint" where
  "toy_endpoint idle = \<lparr>ep_tx_timeout = 100, ep_buffer_len = 2048, ep_evts = [],
                        idle_txs = idle\<rparr>"

text \<open>
  An initialised transport with empty queues and a free mutex, one connection (id 0) and
  one endpoint (id 0); the network will accept the next datagrams whole.
\<close>

definition toy_world :: "cci_conn_attribute \<Rightarrow> int \<Rightarrow> nat list \<Rightarrow> sock_world" where
  "toy_world a timeout idle =
     \<lparr>sglobals = True, sdev_lock = False, queued = [], pending = [],
      txs = (\<lambda>_. blank_tx),
      conns = (\<lambda>_. toy_connection a timeout),
      eps = (\<lambda>_. toy_endpoint idle),
      wire = [Sent 24, Sent 24, Sent 24],
      errno = 0\<rparr>"

text \<open>
  Descriptor 0 as \<open>sock_sendv\<close> leaves it on a list of the device: a 24-byte send on
  connection 0 with the given flags, not yet cycled. \<open>toy_queued_world\<close> and
  \<open>toy_pending_world\<close> are the states in which the loop bodies of
  \<open>sock_progress_queued\<close> and \<open>sock_progress_pending\<close> meet it: on the queued or
  the pending list, with the device's mutex held by the function around the loop.
\<close>

definition toy_send_tx :: "int \<Rightarrow> sock_tx_state \<Rightarrow> sock_tx" where
  "toy_send_tx flags st = blank_tx\<lparr>tx_evt_type := CCI_EVENT_SEND, tx_msg_type := SOCK_MSG_SEND,
                                    tx_flags := flags, tx_state := st, tx_len := 24\<rparr>"

definition toy_queued_world :: "cci_conn_attribute \<Rightarrow> int \<Rightarrow> int \<Rightarrow> sock_world" where
  "toy_queued_world a timeout flags =
     (toy_world a timeout [])\<lparr>sdev_lock := True, queued := [0],
         txs := (\<lambda>_. blank_tx)(0 := toy_send_tx flags SOCK_TX_QUEUED)\<rparr>"

definition toy_pending_world :: "cci_conn_attribute \<Rightarrow> int \<Rightarrow> int \<Rightarrow> sock_world" where
  "toy_pending_world a timeout flags =
     (toy_world a timeout [])\<lparr>sdev_lock := True, pending := [0],
         txs := (\<lambda>_. blank_tx)(0 := toy_send_tx flags SOCK_TX_PENDING)\<rparr>"

text \<open>A resolver that knows the name \<open>localhost\<close> and nothing else (\<open>EAI_NONAME\<close> is -2).\<close>

definition toy_resolve :: "string \<Rightarrow> int \<times> u32" where
  "toy_resolve h = (if h = ''localhost'' then (0, 2130706433) else (- 2, 0))"

section \<open>Remote memory access\<close>

text \<open>
  No function of the sources at hand moves the bytes of an rma: \<open>sock_rma\<close> above
  refuses every call, and of the transports that carry one out (the GNI transport
  declares \<open>GNI_MSG_RMA_WRITE\<close> and \<open>GNI_MSG_RMA_READ\<close>) only declarations are present.
  The engine is therefore taken from section 4.4 of the specification; the checks of the
  test program rma\_verify.c are taken from its source.

  A registered region is the list of its bytes; offsets and lengths are natural numbers.
\<close>

text \<open>The bytes of a region in the range an rma names.\<close>

definition region_slice :: "u8 list \<Rightarrow> nat \<Rightarrow> nat \<Rightarrow> u8 list" where
  "region_slice bytes off len = take len (drop off bytes)"


text \<open>
  Modelled from the spec: "The engine segments \<open>length\<close> into fragments of size
  \<open>min(max_send_size, transport_mtu)\<close>". Fragment \<open>i\<close> starts \<open>i * frag\<close> bytes into
  the range and has \<open>frag\<close> bytes, the last one what is left.
\<close>

definition rma_windows :: "nat \<Rightarrow> nat \<Rightarrow> (nat \<times> nat) list" where
  "rma_windows frag len =
     map (\<lambda>i. (i * frag, min frag (len - i * frag))) [0 ..< (len + frag - 1) div frag]"

text \<open>
  Modelled from the spec: the engine "emits WRITE or READ\_REQ packets carrying the
  remote token and the fragment's remote offset. READs reply with READ\_REPLY datagrams
  carrying data for the requested window." Either way each fragment ends up as a
  datagram with the bytes of its window of the source region and the offset in the
  destination region at which they belong.
\<close>

definition rma_packets :: "u8 list \<Rightarrow> nat \<Rightarrow> nat \<Rightarrow> nat \<Rightarrow> nat \<Rightarrow> (nat \<times> u8 list) list" where
  "rma_packets src src_off dst_off frag len =
     map (\<lambda>(d, n). (dst_off + d, region_slice src (src_off + d) n)) (rma_windows frag len)"

text \<open>
  Modelled from the spec: the side that receives the data of a fragment stores it at
  the fragment's offset in the destination region. A fragment that does not fit in the
  region is dropped.
\<close>

definition place_fragment :: "u8 list \<Rightarrow> nat \<times> u8 list \<Rightarrow> u8 list" where
  "place_fragment dst p =
     (case p of (off, bytes) \<Rightarrow>
        if off + length bytes \<le> length dst
        then take off dst @ bytes @ drop (off + length bytes) dst
        else dst)"






section \<open>Properties of the Ethernet receive path\<close>

lemma put_endpoint_same:
  "ccieth_ep_idr s eid = Some ep \<Longrightarrow> put_endpoint s eid ep = s"
  by (simp add: put_endpoint_def fun_upd_idem)

lemma events_of_put_endpoint:
  "events_of (put_endpoint s eid ep) e = (if e = eid then event_list ep else events_of s e)"
  by (simp add: events_of_def put_endpoint_def)

lemma ccieth__recv_msg_cases:
  assumes "hdr_size fmt + unat (msg_len hdr) \<le> length (skb_bytes skb)"
  shows "ccieth__recv_msg fmt ep conn hdr skb =
     (case free_event_list ep of
        [] \<Rightarrow> Inr (- ENOMEM, ep)
      | slot # rest \<Rightarrow>
          Inr (0, ep\<lparr>free_event_list := rest,
                    event_list := event_list ep @ [delivered_event fmt conn hdr skb slot]\<rparr>))"
  using assms
  by (simp add: ccieth__recv_msg_def skb_copy_bits_def Let_def delivered_event_def
        split: list.splits)

text \<open>A frame that passes every check is dispatched on the status of its connection.\<close>

lemma recv_msg_accepted:
  assumes "skb_header_pointer skb 0 (hdr_size fmt) = Some raw"
      and "ccieth_ep_idr s (dst_ep_id (hdr_decode fmt raw)) = Some ep"
      and "ep_ifp ep = Some ifp"
      and "msg_len (hdr_decode fmt raw) \<le> ep_max_send_size ep"
      and "hdr_size fmt + unat (msg_len (hdr_decode fmt raw)) \<le> length (skb_bytes skb)"
      and "connection_idr ep (dst_conn_id (hdr_decode fmt raw)) = Some conn"
  shows "ccieth_recv_msg fmt ifp skb s =
     (if conn_status conn = CCIETH_CONNECTION_READY then
        (case free_event_list ep of
           [] \<Rightarrow> Inr (- ENOMEM, s)
         | slot # rest \<Rightarrow>
            Inr (0, put_endpoint s (dst_ep_id (hdr_decode fmt raw))
                      (ep\<lparr>free_event_list := rest,
                          event_list := event_list ep @
                             [delivered_event fmt conn (hdr_decode fmt raw) skb slot]\<rparr>)))
      else if conn_status conn = CCIETH_CONNECTION_REQUESTED
              \<and> conn_attribute conn = CCIETH_CONNECT_ATTR_UU then
        Inr (0, put_endpoint s (dst_ep_id (hdr_decode fmt raw))
                  (ep\<lparr>connection_idr := (connection_idr ep)
                        (dst_conn_id (hdr_decode fmt raw) :=
                           Some (ccieth_conn_uu_defer_recv_msg conn skb))\<rparr>))
      else Inr (- EINVAL, s))"
proof -
  from assms(4) have "\<not> ep_max_send_size ep < msg_len (hdr_decode fmt raw)"
    by (simp add: not_less)
  moreover from assms(5)
  have "\<not> length (skb_bytes skb) < hdr_size fmt + unat (msg_len (hdr_decode fmt raw))"
    by (simp add: not_less)
  ultimately show ?thesis
    using assms(1,2,3,5,6)
    by (simp add: ccieth_recv_msg_def Let_def ccieth__recv_msg_cases put_endpoint_same
          split: list.splits)
qed

text \<open>A frame that fails any check is dropped: the state is left as it was.\<close>

lemma recv_msg_rejected:
  assumes "skb_header_pointer skb 0 (hdr_size fmt) = None
         \<or> (\<exists>raw. skb_header_pointer skb 0 (hdr_size fmt) = Some raw \<and>
               (case ccieth_ep_idr s (dst_ep_id (hdr_decode fmt raw)) of
                  None \<Rightarrow> True
                | Some ep \<Rightarrow> ep_ifp ep \<noteq> Some ifp
                     \<or> ep_max_send_size ep < msg_len (hdr_decode fmt raw)
                     \<or> length (skb_bytes skb) < hdr_size fmt + unat (msg_len (hdr_decode fmt raw))
                     \<or> connection_idr ep (dst_conn_id (hdr_decode fmt raw)) = None))"
  shows "ccieth_recv_msg fmt ifp skb s = Inr (- EINVAL, s)"
  using assms
  by (auto simp: ccieth_recv_msg_def Let_def split: option.splits)

lemma recv_msg_dichotomy:
  obtains (rejected) "ccieth_recv_msg fmt ifp skb s = Inr (- EINVAL, s)"
  | (accepted) raw ep conn where
      "skb_header_pointer skb 0 (hdr_size fmt) = Some raw"
      "ccieth_ep_idr s (dst_ep_id (hdr_decode fmt raw)) = Some ep"
      "ep_ifp ep = Some ifp"
      "msg_len (hdr_decode fmt raw) \<le> ep_max_send_size ep"
      "hdr_size fmt + unat (msg_len (hdr_decode fmt raw)) \<le> length (skb_bytes skb)"
      "connection_idr ep (dst_conn_id (hdr_decode fmt raw)) = Some conn"
proof (cases "skb_header_pointer skb 0 (hdr_size fmt)")
  case None
  then show ?thesis by (intro rejected recv_msg_rejected) simp
next
  case (Some raw)
  let ?hdr = "hdr_decode fmt raw"
  show ?thesis
  proof (cases "ccieth_ep_idr s (dst_ep_id ?hdr)")
    case None
    with Some show ?thesis by (intro rejected recv_msg_rejected) simp
  next
    case ep: (Some ep)
    show ?thesis
    proof (cases "ep_ifp ep = Some ifp \<and> msg_len ?hdr \<le> ep_max_send_size ep
              \<and> hdr_size fmt + unat (msg_len ?hdr) \<le> length (skb_bytes skb)
              \<and> connection_idr ep (dst_conn_id ?hdr) \<noteq> None")
      case True
      then obtain conn where "connection_idr ep (dst_conn_id ?hdr) = Some conn" by auto
      with True Some ep show ?thesis by (intro accepted) auto
    next
      case False
      with Some ep show ?thesis
        by (intro rejected recv_msg_rejected) (auto simp: not_le)
    qed
  qed
qed

lemma events_of_defer:
  "ccieth_ep_idr s eid = Some ep \<Longrightarrow>
   events_of (put_endpoint s eid (ep\<lparr>connection_idr := c\<rparr>)) e = events_of s e"
  by (simp add: events_of_def put_endpoint_def)

text \<open>
  Whenever the handler changes the events of an endpoint, the frame passed every check,
  its connection was READY, and the new event holds exactly the declared payload.
\<close>

lemma recv_msg_delivery_inversion:
  assumes res: "ccieth_recv_msg fmt ifp skb s = Inr (err, s')"
      and chg: "events_of s' eid \<noteq> events_of s eid"
  shows "\<exists>raw ep conn slot.
             skb_header_pointer skb 0 (hdr_size fmt) = Some raw
           \<and> dst_ep_id (hdr_decode fmt raw) = eid
           \<and> ccieth_ep_idr s eid = Some ep
           \<and> connection_idr ep (dst_conn_id (hdr_decode fmt raw)) = Some conn
           \<and> conn_status conn = CCIETH_CONNECTION_READY
           \<and> msg_len (hdr_decode fmt raw) \<le> ep_max_send_size ep
           \<and> hdr_size fmt + unat (msg_len (hdr_decode fmt raw)) \<le> length (skb_bytes skb)
           \<and> events_of s' eid
               = events_of s eid @ [delivered_event fmt conn (hdr_decode fmt raw) skb slot]"
proof (cases rule: recv_msg_dichotomy [of fmt ifp skb s])
  case rejected
  with res chg show ?thesis by simp
next
  case (accepted raw ep conn)
  note acc = recv_msg_accepted [OF accepted]
  show ?thesis
  proof (cases "conn_status conn = CCIETH_CONNECTION_READY")
    case False
    with res chg acc accepted(2) show ?thesis
      by (auto simp: events_of_defer split: if_splits)
  next
    case ready: True
    show ?thesis
    proof (cases "free_event_list ep")
      case Nil
      with res chg acc ready show ?thesis by simp
    next
      case (Cons slot rest)
      with res acc ready
      have s': "s' = put_endpoint s (dst_ep_id (hdr_decode fmt raw))
                 (ep\<lparr>free_event_list := rest,
                     event_list := event_list ep @
                        [delivered_event fmt conn (hdr_decode fmt raw) skb slot]\<rparr>)"
        by simp
      with chg have eid: "dst_ep_id (hdr_decode fmt raw) = eid"
        by (auto simp: events_of_put_endpoint split: if_splits)
      from eid accepted(2) have "events_of s eid = event_list ep"
        by (simp add: events_of_def)
      with s' eid
      have "events_of s' eid
              = events_of s eid @ [delivered_event fmt conn (hdr_decode fmt raw) skb slot]"
        by (simp add: events_of_put_endpoint)
      with accepted ready eid show ?thesis by blast
    qed
  qed
qed

lemma toy_header [simp]:
  "skb_header_pointer (toy_skb cid len) 0 (hdr_size toy_fmt) = Some [1, cid, 0, len]"
  by (simp add: skb_header_pointer_def toy_skb_def toy_fmt_def)

lemma toy_decode [simp]:
  "hdr_decode toy_fmt [1, cid, 0, len]
     = \<lparr>dst_ep_id = 1, dst_conn_id = ucast cid, msg_seqnum = 0, msg_len = ucast len\<rparr>"
  by (simp add: toy_fmt_def)

lemma toy_lookup [simp]:
  "ccieth_ep_idr (toy_state free) 1 = Some (toy_ep free)"
  by (simp add: toy_state_def)

lemmas toy_defs = toy_ep_def toy_conns_def toy_conn_def toy_skb_def toy_fmt_def toy_state_def
  toy_slot_def skb_header_pointer_def

text \<open>
  On its own, \<open>ccieth__recv_msg\<close> reaches its \<open>BUG_ON\<close> exactly when a slot is free
  and the frame is shorter than the header plus the declared length: the guard in the
  caller is what rules this out.
\<close>

lemma ccieth__recv_msg_bug_iff:
  "ccieth__recv_msg fmt ep conn hdr skb = Inl BUG_ON
     \<longleftrightarrow> free_event_list ep \<noteq> []
          \<and> length (skb_bytes skb) < hdr_size fmt + unat (msg_len hdr)"
  by (auto simp: ccieth__recv_msg_def skb_copy_bits_def Let_def EFAULT_def split: list.splits)

text \<open>
  C10. For every incoming MSG frame the payload is copied into an event only after the
  handler has checked that the declared length is at most the endpoint's
  \<open>max_send_size\<close> and that the frame holds the header plus that many bytes. A frame
  failing either check is dropped with the state untouched; whenever an event is
  delivered both checks held and the copied payload is exactly the declared number of
  bytes taken from inside the frame; and the \<open>BUG_ON\<close> after \<open>skb_copy_bits\<close> is
  never reached.
\<close>

theorem recv_msg_copy_guarded:
  "ccieth_recv_msg fmt ifp skb s \<noteq> Inl BUG_ON
   \<and> (\<forall>raw ep. skb_header_pointer skb 0 (hdr_size fmt) = Some raw
          \<and> ccieth_ep_idr s (dst_ep_id (hdr_decode fmt raw)) = Some ep
          \<and> (ep_max_send_size ep < msg_len (hdr_decode fmt raw)
              \<or> length (skb_bytes skb) < hdr_size fmt + unat (msg_len (hdr_decode fmt raw)))
        \<longrightarrow> ccieth_recv_msg fmt ifp skb s = Inr (- EINVAL, s))
   \<and> (\<forall>err s' eid. ccieth_recv_msg fmt ifp skb s = Inr (err, s')
          \<and> events_of s' eid \<noteq> events_of s eid
        \<longrightarrow> (\<exists>raw ep conn slot.
               skb_header_pointer skb 0 (hdr_size fmt) = Some raw
             \<and> ccieth_ep_idr s eid = Some ep
             \<and> msg_len (hdr_decode fmt raw) \<le> ep_max_send_size ep
             \<and> hdr_size fmt + unat (msg_len (hdr_decode fmt raw)) \<le> length (skb_bytes skb)
             \<and> events_of s' eid
                 = events_of s eid @ [delivered_event fmt conn (hdr_decode fmt raw) skb slot]
             \<and> length (ev_payload (delivered_event fmt conn (hdr_decode fmt raw) skb slot))
                 = unat (msg_len (hdr_decode fmt raw))))"
proof (intro conjI allI impI)
  show "ccieth_recv_msg fmt ifp skb s \<noteq> Inl BUG_ON"
  proof (cases rule: recv_msg_dichotomy [of fmt ifp skb s])
    case rejected
    then show ?thesis by simp
  next
    case (accepted raw ep conn)
    then show ?thesis by (simp add: recv_msg_accepted split: list.splits)
  qed
next
  fix raw ep
  assume "skb_header_pointer skb 0 (hdr_size fmt) = Some raw
          \<and> ccieth_ep_idr s (dst_ep_id (hdr_decode fmt raw)) = Some ep
          \<and> (ep_max_send_size ep < msg_len (hdr_decode fmt raw)
              \<or> length (skb_bytes skb) < hdr_size fmt + unat (msg_len (hdr_decode fmt raw)))"
  then show "ccieth_recv_msg fmt ifp skb s = Inr (- EINVAL, s)"
    by (intro recv_msg_rejected) auto
next
  fix err s' eid
  assume "ccieth_recv_msg fmt ifp skb s = Inr (err, s') \<and> events_of s' eid \<noteq> events_of s eid"
  then obtain raw ep conn slot where
      h: "skb_header_pointer skb 0 (hdr_size fmt) = Some raw"
         "ccieth_ep_idr s eid = Some ep"
         "msg_len (hdr_decode fmt raw) \<le> ep_max_send_size ep"
         "hdr_size fmt + unat (msg_len (hdr_decode fmt raw)) \<le> length (skb_bytes skb)"
         "events_of s' eid
            = events_of s eid @ [delivered_event fmt conn (hdr_decode fmt raw) skb slot]"
    using recv_msg_delivery_inversion [of fmt ifp skb s err s' eid] by blast
  from h(4)
  have "length (ev_payload (delivered_event fmt conn (hdr_decode fmt raw) skb slot))
          = unat (msg_len (hdr_decode fmt raw))"
    by (simp add: delivered_event_def)
  with h show "\<exists>raw ep conn slot.
               skb_header_pointer skb 0 (hdr_size fmt) = Some raw
             \<and> ccieth_ep_idr s eid = Some ep
             \<and> msg_len (hdr_decode fmt raw) \<le> ep_max_send_size ep
             \<and> hdr_size fmt + unat (msg_len (hdr_decode fmt raw)) \<le> length (skb_bytes skb)
             \<and> events_of s' eid
                 = events_of s eid @ [delivered_event fmt conn (hdr_decode fmt raw) skb slot]
             \<and> length (ev_payload (delivered_event fmt conn (hdr_decode fmt raw) skb slot))
                 = unat (msg_len (hdr_decode fmt raw))"
    by blast
qed

lemma toy_delivery:
  "ccieth_recv_msg toy_fmt 0 (toy_skb 1 2) (toy_state [toy_slot]) =
     Inr (0, put_endpoint (toy_state [toy_slot]) 1
               ((toy_ep [toy_slot])\<lparr>free_event_list := [],
                   event_list := [delivered_event toy_fmt
                      (toy_conn CCIETH_CONNECTION_READY CCIETH_CONNECT_ATTR_RU)
                      \<lparr>dst_ep_id = 1, dst_conn_id = 1, msg_seqnum = 0, msg_len = 2\<rparr>
                      (toy_skb 1 2) toy_slot]\<rparr>))"
  by (subst recv_msg_accepted [where raw = "[1, 1, 0, 2]" and ep = "toy_ep [toy_slot]"
          and conn = "toy_conn CCIETH_CONNECTION_READY CCIETH_CONNECT_ATTR_RU"])
     (simp_all add: toy_defs)

text \<open>
  Witness for C10: a frame declaring 9 bytes to an endpoint whose \<open>max_send_size\<close> is 8
  is dropped, and a well-formed two-byte message is delivered with its two payload
  bytes.
\<close>

theorem recv_msg_copy_guarded_witness:
  "ccieth_recv_msg toy_fmt 0 (toy_skb 1 9) (toy_state [toy_slot])
      = Inr (- EINVAL, toy_state [toy_slot])
   \<and> (\<exists>raw ep conn slot.
          skb_header_pointer (toy_skb 1 2) 0 (hdr_size toy_fmt) = Some raw
        \<and> ccieth_ep_idr (toy_state [toy_slot]) 1 = Some ep
        \<and> msg_len (hdr_decode toy_fmt raw) \<le> ep_max_send_size ep
        \<and> hdr_size toy_fmt + unat (msg_len (hdr_decode toy_fmt raw))
            \<le> length (skb_bytes (toy_skb 1 2))
        \<and> events_of (put_endpoint (toy_state [toy_slot]) 1
               ((toy_ep [toy_slot])\<lparr>free_event_list := [],
                   event_list := [delivered_event toy_fmt
                      (toy_conn CCIETH_CONNECTION_READY CCIETH_CONNECT_ATTR_RU)
                      \<lparr>dst_ep_id = 1, dst_conn_id = 1, msg_seqnum = 0, msg_len = 2\<rparr>
                      (toy_skb 1 2) toy_slot]\<rparr>)) 1
            = events_of (toy_state [toy_slot]) 1
                @ [delivered_event toy_fmt conn (hdr_decode toy_fmt raw) (toy_skb 1 2) slot]
        \<and> length (ev_payload
             (delivered_event toy_fmt conn (hdr_decode toy_fmt raw) (toy_skb 1 2) slot))
            = unat (msg_len (hdr_decode toy_fmt raw)))"
proof -
  note inst = recv_msg_copy_guarded [of toy_fmt 0 _ "toy_state [toy_slot]"]
  have big: "ep_max_send_size (toy_ep [toy_slot])
               < msg_len (hdr_decode toy_fmt [1, 1, 0, 9])"
    by (simp add: toy_ep_def)
  have "ccieth_recv_msg toy_fmt 0 (toy_skb 1 9) (toy_state [toy_slot])
          = Inr (- EINVAL, toy_state [toy_slot])"
    using inst [of "toy_skb 1 9", THEN conjunct2, THEN conjunct1, rule_format,
               of "[1, 1, 0, 9]" "toy_ep [toy_slot]"] big
    by simp
  moreover
  have chg: "events_of (put_endpoint (toy_state [toy_slot]) 1
               ((toy_ep [toy_slot])\<lparr>free_event_list := [],
                   event_list := [delivered_event toy_fmt
                      (toy_conn CCIETH_CONNECTION_READY CCIETH_CONNECT_ATTR_RU)
                      \<lparr>dst_ep_id = 1, dst_conn_id = 1, msg_seqnum = 0, msg_len = 2\<rparr>
                      (toy_skb 1 2) toy_slot]\<rparr>)) 1
             \<noteq> events_of (toy_state [toy_slot]) 1"
    by (simp add: events_of_put_endpoint) (simp add: events_of_def toy_ep_def)
  note inst [of "toy_skb 1 2", THEN conjunct2, THEN conjunct2, rule_format,
            OF conjI [OF toy_delivery chg]]
  ultimately show ?thesis by blast
qed

lemma addressed_to_result:
  assumes "addressed_to fmt ifp skb s raw ep conn"
  shows "ccieth_recv_msg fmt ifp skb s =
     (if conn_status conn = CCIETH_CONNECTION_READY then
        (case free_event_list ep of
           [] \<Rightarrow> Inr (- ENOMEM, s)
         | slot # rest \<Rightarrow>
            Inr (0, put_endpoint s (dst_ep_id (hdr_decode fmt raw))
                      (ep\<lparr>free_event_list := rest,
                          event_list := event_list ep @
                             [delivered_event fmt conn (hdr_decode fmt raw) skb slot]\<rparr>)))
      else if conn_status conn = CCIETH_CONNECTION_REQUESTED
              \<and> conn_attribute conn = CCIETH_CONNECT_ATTR_UU then
        Inr (0, put_endpoint s (dst_ep_id (hdr_decode fmt raw))
                  (ep\<lparr>connection_idr := (connection_idr ep)
                        (dst_conn_id (hdr_decode fmt raw) :=
                           Some (ccieth_conn_uu_defer_recv_msg conn skb))\<rparr>))
      else Inr (- EINVAL, s))"
  using assms unfolding addressed_to_def by (intro recv_msg_accepted) simp_all

lemma toy_addressed:
  "c \<in> {1, 2, 3} \<Longrightarrow>
   addressed_to toy_fmt 0 (toy_skb c 2) (toy_state free) [1, c, 0, 2] (toy_ep free)
     (the (toy_conns (ucast c)))"
  by (auto simp: addressed_to_def toy_defs)

text \<open>What delivery and deferral leave in the state: the events and the deferred lists.\<close>

lemma deferred_of_delivery:
  "ccieth_ep_idr s eid = Some ep \<Longrightarrow>
   deferred_of (put_endpoint s eid (ep\<lparr>free_event_list := fl, event_list := el\<rparr>)) e c
     = deferred_of s e c"
  by (simp add: deferred_of_def put_endpoint_def)

lemma deferred_of_defer:
  "ccieth_ep_idr s eid = Some ep \<Longrightarrow> connection_idr ep cid = Some conn \<Longrightarrow>
   deferred_of (put_endpoint s eid
       (ep\<lparr>connection_idr := (connection_idr ep)
             (cid := Some (ccieth_conn_uu_defer_recv_msg conn skb))\<rparr>)) e c
     = (if e = eid \<and> c = cid then deferred_of s eid cid @ [skb] else deferred_of s e c)"
  by (simp add: deferred_of_def put_endpoint_def ccieth_conn_uu_defer_recv_msg_def)

lemma events_of_delivery:
  "ccieth_ep_idr s eid = Some ep \<Longrightarrow>
   events_of (put_endpoint s eid (ep\<lparr>free_event_list := fl,
                                     event_list := event_list ep @ [ev]\<rparr>)) e
     = (if e = eid then events_of s eid @ [ev] else events_of s e)"
  by (simp add: events_of_def put_endpoint_def)

text \<open>
  C7. A MSG frame produces a RECV event only when its destination connection is READY:
  whenever the handler changes the events of an endpoint, the frame was addressed to a
  READY connection of that endpoint and the change is one RECV event appended. A frame
  for a READY connection (a free slot permitting) is delivered: the handler returns 0,
  the endpoint has that one event more, and no deferred list changes. A frame for a UU
  connection that is still REQUESTED is deferred: the handler returns 0, no endpoint has
  an event more, and the frame stands at the end of the deferred list of its connection,
  every other deferred list being as before (the insertion itself is done by
  \<open>ccieth_conn_uu_defer_recv_msg\<close>). A frame for a connection in any other condition is
  dropped with \<open>-EINVAL\<close>, leaving the state as it was.
\<close>

theorem recv_msg_dispatch_by_status:
  "(\<forall>err s' eid. ccieth_recv_msg fmt ifp skb s = Inr (err, s')
         \<and> events_of s' eid \<noteq> events_of s eid
       \<longrightarrow> (\<exists>raw ep conn slot.
               addressed_to fmt ifp skb s raw ep conn
             \<and> dst_ep_id (hdr_decode fmt raw) = eid
             \<and> conn_status conn = CCIETH_CONNECTION_READY
             \<and> events_of s' eid
                 = events_of s eid @ [delivered_event fmt conn (hdr_decode fmt raw) skb slot]
             \<and> ev_type (delivered_event fmt conn (hdr_decode fmt raw) skb slot)
                 = CCIETH_IOCTL_EVENT_RECV))
   \<and> (\<forall>raw ep conn slot rest. addressed_to fmt ifp skb s raw ep conn
         \<and> conn_status conn = CCIETH_CONNECTION_READY
         \<and> free_event_list ep = slot # rest
       \<longrightarrow> (\<exists>s'. ccieth_recv_msg fmt ifp skb s = Inr (0, s')
              \<and> events_of s' (dst_ep_id (hdr_decode fmt raw))
                  = events_of s (dst_ep_id (hdr_decode fmt raw))
                      @ [delivered_event fmt conn (hdr_decode fmt raw) skb slot]
              \<and> (\<forall>e. e \<noteq> dst_ep_id (hdr_decode fmt raw) \<longrightarrow> events_of s' e = events_of s e)
              \<and> (\<forall>e c. deferred_of s' e c = deferred_of s e c)))
   \<and> (\<forall>raw ep conn. addressed_to fmt ifp skb s raw ep conn
         \<and> conn_status conn = CCIETH_CONNECTION_REQUESTED
         \<and> conn_attribute conn = CCIETH_CONNECT_ATTR_UU
       \<longrightarrow> (\<exists>s'. ccieth_recv_msg fmt ifp skb s = Inr (0, s')
              \<and> (\<forall>e. events_of s' e = events_of s e)
              \<and> deferred_of s' (dst_ep_id (hdr_decode fmt raw)) (dst_conn_id (hdr_decode fmt raw))
                  = deferred_of s (dst_ep_id (hdr_decode fmt raw))
                      (dst_conn_id (hdr_decode fmt raw)) @ [skb]
              \<and> (\<forall>e c. \<not> (e = dst_ep_id (hdr_decode fmt raw)
                            \<and> c = dst_conn_id (hdr_decode fmt raw))
                     \<longrightarrow> deferred_of s' e c = deferred_of s e c)))
   \<and> (\<forall>raw ep conn. addressed_to fmt ifp skb s raw ep conn
         \<and> conn_status conn \<noteq> CCIETH_CONNECTION_READY
         \<and> \<not> (conn_status conn = CCIETH_CONNECTION_REQUESTED
               \<and> conn_attribute conn = CCIETH_CONNECT_ATTR_UU)
       \<longrightarrow> ccieth_recv_msg fmt ifp skb s = Inr (- EINVAL, s))"
proof (intro conjI allI impI)
  fix err s' eid
  assume a: "ccieth_recv_msg fmt ifp skb s = Inr (err, s')
             \<and> events_of s' eid \<noteq> events_of s eid"
  from recv_msg_delivery_inversion [of fmt ifp skb s err s' eid] a
  obtain raw ep conn slot where
      h: "skb_header_pointer skb 0 (hdr_size fmt) = Some raw"
         "dst_ep_id (hdr_decode fmt raw) = eid"
         "ccieth_ep_idr s eid = Some ep"
         "connection_idr ep (dst_conn_id (hdr_decode fmt raw)) = Some conn"
         "conn_status conn = CCIETH_CONNECTION_READY"
         "msg_len (hdr_decode fmt raw) \<le> ep_max_send_size ep"
         "hdr_size fmt + unat (msg_len (hdr_decode fmt raw)) \<le> length (skb_bytes skb)"
         "events_of s' eid
            = events_of s eid @ [delivered_event fmt conn (hdr_decode fmt raw) skb slot]"
    by blast
  have "ep_ifp ep = Some ifp"
  proof (rule ccontr)
    assume "ep_ifp ep \<noteq> Some ifp"
    with h(1,2,3) have "ccieth_recv_msg fmt ifp skb s = Inr (- EINVAL, s)"
      by (intro recv_msg_rejected) auto
    with a show False by auto
  qed
  with h have "addressed_to fmt ifp skb s raw ep conn"
    by (simp add: addressed_to_def)
  moreover have "ev_type (delivered_event fmt conn (hdr_decode fmt raw) skb slot)
                   = CCIETH_IOCTL_EVENT_RECV"
    by (simp add: delivered_event_def)
  ultimately show "\<exists>raw ep conn slot.
               addressed_to fmt ifp skb s raw ep conn
             \<and> dst_ep_id (hdr_decode fmt raw) = eid
             \<and> conn_status conn = CCIETH_CONNECTION_READY
             \<and> events_of s' eid
                 = events_of s eid @ [delivered_event fmt conn (hdr_decode fmt raw) skb slot]
             \<and> ev_type (delivered_event fmt conn (hdr_decode fmt raw) skb slot)
                 = CCIETH_IOCTL_EVENT_RECV"
    using h(2,5,8) by blast
next
  fix raw ep conn slot rest
  assume a: "addressed_to fmt ifp skb s raw ep conn
         \<and> conn_status conn = CCIETH_CONNECTION_READY
         \<and> free_event_list ep = slot # rest"
  let ?eid = "dst_ep_id (hdr_decode fmt raw)"
  let ?ev = "delivered_event fmt conn (hdr_decode fmt raw) skb slot"
  let ?s' = "put_endpoint s ?eid
               (ep\<lparr>free_event_list := rest, event_list := event_list ep @ [?ev]\<rparr>)"
  from a have ep: "ccieth_ep_idr s ?eid = Some ep"
    by (simp add: addressed_to_def)
  from a have "ccieth_recv_msg fmt ifp skb s = Inr (0, ?s')"
    using addressed_to_result [of fmt ifp skb s raw ep conn] by simp
  moreover have "events_of ?s' ?eid = events_of s ?eid @ [?ev]"
    by (simp add: events_of_delivery [OF ep])
  moreover have "\<forall>e. e \<noteq> ?eid \<longrightarrow> events_of ?s' e = events_of s e"
    by (simp add: events_of_delivery [OF ep])
  moreover have "\<forall>e c. deferred_of ?s' e c = deferred_of s e c"
    by (simp add: deferred_of_delivery [OF ep])
  ultimately show "\<exists>s'. ccieth_recv_msg fmt ifp skb s = Inr (0, s')
              \<and> events_of s' ?eid = events_of s ?eid @ [?ev]
              \<and> (\<forall>e. e \<noteq> ?eid \<longrightarrow> events_of s' e = events_of s e)
              \<and> (\<forall>e c. deferred_of s' e c = deferred_of s e c)"
    by blast
next
  fix raw ep conn
  assume a: "addressed_to fmt ifp skb s raw ep conn
         \<and> conn_status conn = CCIETH_CONNECTION_REQUESTED
         \<and> conn_attribute conn = CCIETH_CONNECT_ATTR_UU"
  let ?eid = "dst_ep_id (hdr_decode fmt raw)"
  let ?cid = "dst_conn_id (hdr_decode fmt raw)"
  let ?s' = "put_endpoint s ?eid
               (ep\<lparr>connection_idr := (connection_idr ep)
                     (?cid := Some (ccieth_conn_uu_defer_recv_msg conn skb))\<rparr>)"
  from a have ep: "ccieth_ep_idr s ?eid = Some ep"
      and conn: "connection_idr ep ?cid = Some conn"
    by (simp_all add: addressed_to_def)
  from a have "ccieth_recv_msg fmt ifp skb s = Inr (0, ?s')"
    using addressed_to_result [of fmt ifp skb s raw ep conn] by simp
  moreover have "\<forall>e. events_of ?s' e = events_of s e"
    by (simp add: events_of_defer [OF ep])
  moreover have "deferred_of ?s' ?eid ?cid = deferred_of s ?eid ?cid @ [skb]"
    by (simp add: deferred_of_defer [OF ep conn])
  moreover have "\<forall>e c. \<not> (e = ?eid \<and> c = ?cid) \<longrightarrow> deferred_of ?s' e c = deferred_of s e c"
    by (simp add: deferred_of_defer [OF ep conn])
  ultimately show "\<exists>s'. ccieth_recv_msg fmt ifp skb s = Inr (0, s')
              \<and> (\<forall>e. events_of s' e = events_of s e)
              \<and> deferred_of s' ?eid ?cid = deferred_of s ?eid ?cid @ [skb]
              \<and> (\<forall>e c. \<not> (e = ?eid \<and> c = ?cid) \<longrightarrow> deferred_of s' e c = deferred_of s e c)"
    by blast
next
  fix raw ep conn
  assume "addressed_to fmt ifp skb s raw ep conn
         \<and> conn_status conn \<noteq> CCIETH_CONNECTION_READY
         \<and> \<not> (conn_status conn = CCIETH_CONNECTION_REQUESTED
               \<and> conn_attribute conn = CCIETH_CONNECT_ATTR_UU)"
  then show "ccieth_recv_msg fmt ifp skb s = Inr (- EINVAL, s)"
    using addressed_to_result [of fmt ifp skb s raw ep conn] by auto
qed

text \<open>
  Witness for C7: in the toy configuration a frame for the READY connection 1 leaves one
  RECV event with its two payload bytes on endpoint 1, a frame for the REQUESTED UU
  connection 2 leaves no event and stands alone on the deferred list of connection 2,
  and a frame for the REQUESTED RO connection 3 is dropped.
\<close>

theorem recv_msg_dispatch_by_status_witness:
  "(\<exists>s'. ccieth_recv_msg toy_fmt 0 (toy_skb 1 2) (toy_state [toy_slot]) = Inr (0, s')
       \<and> events_of s' 1
           = [\<lparr>ev_type = CCIETH_IOCTL_EVENT_RECV, ev_data_length = 2,
               ev_recv_user_conn_id = 77, ev_payload = [170, 187]\<rparr>]
       \<and> deferred_of s' 1 1 = [])
   \<and> (\<exists>s'. ccieth_recv_msg toy_fmt 0 (toy_skb 2 2) (toy_state [toy_slot]) = Inr (0, s')
       \<and> events_of s' 1 = []
       \<and> deferred_of s' 1 2 = [toy_skb 2 2])
   \<and> ccieth_recv_msg toy_fmt 0 (toy_skb 3 2) (toy_state [toy_slot])
     = Inr (- EINVAL, toy_state [toy_slot])
   \<and> (\<exists>raw ep conn slot.
          addressed_to toy_fmt 0 (toy_skb 1 2) (toy_state [toy_slot]) raw ep conn
        \<and> conn_status conn = CCIETH_CONNECTION_READY
        \<and> ev_type (delivered_event toy_fmt conn (hdr_decode toy_fmt raw) (toy_skb 1 2) slot)
            = CCIETH_IOCTL_EVENT_RECV)"
proof -
  note inst = recv_msg_dispatch_by_status [of toy_fmt 0 _ "toy_state [toy_slot]"]
  have a1: "addressed_to toy_fmt 0 (toy_skb 1 2) (toy_state [toy_slot]) [1, 1, 0, 2]
              (toy_ep [toy_slot]) (toy_conn CCIETH_CONNECTION_READY CCIETH_CONNECT_ATTR_RU)"
    using toy_addressed [of 1 "[toy_slot]"] by (simp add: toy_conns_def)
  have a2: "addressed_to toy_fmt 0 (toy_skb 2 2) (toy_state [toy_slot]) [1, 2, 0, 2]
              (toy_ep [toy_slot]) (toy_conn CCIETH_CONNECTION_REQUESTED CCIETH_CONNECT_ATTR_UU)"
    using toy_addressed [of 2 "[toy_slot]"] by (simp add: toy_conns_def)
  have a3: "addressed_to toy_fmt 0 (toy_skb 3 2) (toy_state [toy_slot]) [1, 3, 0, 2]
              (toy_ep [toy_slot]) (toy_conn CCIETH_CONNECTION_REQUESTED CCIETH_CONNECT_ATTR_RO)"
    using toy_addressed [of 3 "[toy_slot]"] by (simp add: toy_conns_def)
  have ev0: "events_of (toy_state [toy_slot]) 1 = []"
    by (simp add: events_of_def toy_ep_def)
  have df0: "deferred_of (toy_state [toy_slot]) 1 c = []" for c
    by (simp add: deferred_of_def toy_ep_def toy_conns_def toy_conn_def)
  have dl: "delivered_event toy_fmt (toy_conn CCIETH_CONNECTION_READY CCIETH_CONNECT_ATTR_RU)
              (hdr_decode toy_fmt [1, 1, 0, 2]) (toy_skb 1 2) toy_slot
            = \<lparr>ev_type = CCIETH_IOCTL_EVENT_RECV, ev_data_length = 2,
               ev_recv_user_conn_id = 77, ev_payload = [170, 187]\<rparr>"
    by (simp add: delivered_event_def toy_conn_def toy_skb_def toy_slot_def)
       (simp add: toy_fmt_def)
  have r1: "\<exists>s'. ccieth_recv_msg toy_fmt 0 (toy_skb 1 2) (toy_state [toy_slot]) = Inr (0, s')
       \<and> events_of s' 1
           = [\<lparr>ev_type = CCIETH_IOCTL_EVENT_RECV, ev_data_length = 2,
               ev_recv_user_conn_id = 77, ev_payload = [170, 187]\<rparr>]
       \<and> deferred_of s' 1 1 = []"
    using inst [of "toy_skb 1 2", THEN conjunct2, THEN conjunct1, rule_format,
                of "[1, 1, 0, 2]" "toy_ep [toy_slot]"
                   "toy_conn CCIETH_CONNECTION_READY CCIETH_CONNECT_ATTR_RU" toy_slot "[]"] a1
    by (auto simp: toy_conn_def toy_ep_def ev0 df0 dl [unfolded toy_conn_def, simplified])
  have r2: "\<exists>s'. ccieth_recv_msg toy_fmt 0 (toy_skb 2 2) (toy_state [toy_slot]) = Inr (0, s')
       \<and> events_of s' 1 = []
       \<and> deferred_of s' 1 2 = [toy_skb 2 2]"
    using inst [of "toy_skb 2 2", THEN conjunct2, THEN conjunct2, THEN conjunct1, rule_format,
                of "[1, 2, 0, 2]" "toy_ep [toy_slot]"
                   "toy_conn CCIETH_CONNECTION_REQUESTED CCIETH_CONNECT_ATTR_UU"] a2
    by (auto simp: toy_conn_def ev0 df0)
  have r3: "ccieth_recv_msg toy_fmt 0 (toy_skb 3 2) (toy_state [toy_slot])
     = Inr (- EINVAL, toy_state [toy_slot])"
    using inst [of "toy_skb 3 2", THEN conjunct2, THEN conjunct2, THEN conjunct2, rule_format,
                of "[1, 3, 0, 2]" "toy_ep [toy_slot]"
                   "toy_conn CCIETH_CONNECTION_REQUESTED CCIETH_CONNECT_ATTR_RO"] a3
    by (simp add: toy_conn_def)
  from r1 obtain s1 where
      s1: "ccieth_recv_msg toy_fmt 0 (toy_skb 1 2) (toy_state [toy_slot]) = Inr (0, s1)"
          "events_of s1 1 \<noteq> events_of (toy_state [toy_slot]) 1"
    by (auto simp: ev0)
  from inst [of "toy_skb 1 2", THEN conjunct1, rule_format, OF conjI [OF s1]]
  have "\<exists>raw ep conn slot.
          addressed_to toy_fmt 0 (toy_skb 1 2) (toy_state [toy_slot]) raw ep conn
        \<and> conn_status conn = CCIETH_CONNECTION_READY
        \<and> ev_type (delivered_event toy_fmt conn (hdr_decode toy_fmt raw) (toy_skb 1 2) slot)
            = CCIETH_IOCTL_EVENT_RECV"
    by blast
  with r1 r2 r3 show ?thesis by blast
qed

text \<open>
  C6, as stated, fails: with the free event list empty, a frame for a READY connection is
  dropped with \<open>-ENOMEM\<close>; the state, transmit queue included, is left as it was, so
  no RNR NACK (nor anything else) is sent back.
\<close>

theorem rnr_nack_counterexample:
  "ccieth_recv_msg toy_fmt 0 (toy_skb 1 2) (toy_state []) = Inr (- ENOMEM, toy_state [])
   \<and> xmit_queue (toy_state []) = []"
proof -
  have "addressed_to toy_fmt 0 (toy_skb 1 2) (toy_state []) [1, 1, 0, 2]
              (toy_ep []) (toy_conn CCIETH_CONNECTION_READY CCIETH_CONNECT_ATTR_RU)"
    using toy_addressed [of 1 "[]"] by (simp add: toy_conns_def)
  from addressed_to_result [OF this] show ?thesis
    by (simp add: toy_conn_def toy_ep_def toy_state_def)
qed

text \<open>
  C6, amended: when a MSG frame for a READY connection arrives and the endpoint's free
  event list is empty, the driver drops the frame and returns \<open>-ENOMEM\<close>; no event is
  queued, nothing is transmitted in reply, and the driver's state is unchanged.
\<close>

theorem recv_msg_no_free_event_drops:
  assumes "addressed_to fmt ifp skb s raw ep conn"
      and "conn_status conn = CCIETH_CONNECTION_READY"
      and "free_event_list ep = []"
  shows "ccieth_recv_msg fmt ifp skb s = Inr (- ENOMEM, s)"
  using addressed_to_result [OF assms(1)] assms(2,3) by simp

theorem recv_msg_no_free_event_drops_witness:
  "addressed_to toy_fmt 0 (toy_skb 1 1) (toy_state []) [1, 1, 0, 1]
      (toy_ep []) (toy_conn CCIETH_CONNECTION_READY CCIETH_CONNECT_ATTR_RU)
   \<and> conn_status (toy_conn CCIETH_CONNECTION_READY CCIETH_CONNECT_ATTR_RU)
       = CCIETH_CONNECTION_READY
   \<and> free_event_list (toy_ep []) = []
   \<and> ccieth_recv_msg toy_fmt 0 (toy_skb 1 1) (toy_state []) = Inr (- ENOMEM, toy_state [])"
proof -
  have a: "addressed_to toy_fmt 0 (toy_skb 1 1) (toy_state []) [1, 1, 0, 1]
      (toy_ep []) (toy_conn CCIETH_CONNECTION_READY CCIETH_CONNECT_ATTR_RU)"
    by (simp add: addressed_to_def toy_defs)
  have b: "conn_status (toy_conn CCIETH_CONNECTION_READY CCIETH_CONNECT_ATTR_RU)
       = CCIETH_CONNECTION_READY"
    by (simp add: toy_conn_def)
  have c: "free_event_list (toy_ep []) = []"
    by (simp add: toy_ep_def)
  from recv_msg_no_free_event_drops [OF a b c] a b c show ?thesis by simp
qed

section \<open>Properties of the sock transport\<close>

subsection \<open>Remote memory access\<close>

text \<open>
  \<open>sock_rma\<close> transfers nothing. Whatever the handles, offsets, length and flags, it
  returns \<open>CCI_ENODEV\<close> when the transport is not initialised and
  \<open>CCI_ERR_NOT_IMPLEMENTED\<close> otherwise, never \<open>CCI_SUCCESS\<close>, and it leaves the state
  unchanged.
\<close>

lemma sock_rma_not_implemented:
  "snd (sock_rma c header_len lh lo rh ro len context flags s) = s
   \<and> fst (sock_rma c header_len lh lo rh ro len context flags s)
       = (if sglobals s then CCI_ERR_NOT_IMPLEMENTED else CCI_ENODEV)
   \<and> fst (sock_rma c header_len lh lo rh ro len context flags s) \<noteq> CCI_SUCCESS"
  by (simp add: sock_rma_def CCI_ERR_NOT_IMPLEMENTED_def CCI_ENODEV_def ENODEV_def
        CCI_SUCCESS_def)

subsection \<open>Resolving the server URI\<close>

lemma sock_getaddrinfo_ip:
  "take 5 uri = ''ip://'' \<Longrightarrow>
   sock_getaddrinfo resolve uri =
     (if fst (resolve (drop 5 uri)) \<noteq> 0 then (fst (resolve (drop 5 uri)), None)
      else (CCI_SUCCESS, Some (snd (resolve (drop 5 uri)))))"
  by (simp add: sock_getaddrinfo_def Let_def split: prod.splits)

lemma sock_getaddrinfo_other_scheme:
  "take 5 uri \<noteq> ''ip://'' \<Longrightarrow> sock_getaddrinfo resolve uri = (CCI_EINVAL, None)"
  by (simp add: sock_getaddrinfo_def)

text \<open>
  C8 at a concrete URI: the host component of \<open>ip://localhost:5555\<close> is \<open>localhost\<close>,
  which the resolver knows, yet \<open>sock_getaddrinfo\<close> asks it for \<open>localhost:5555\<close>
  and fails with the resolver's error. Without the port the same name resolves, and a
  URI of another scheme is refused with \<open>CCI_EINVAL\<close>.
\<close>

theorem getaddrinfo_keeps_port:
  "host_component ''ip://localhost:5555'' = ''localhost''
   \<and> toy_resolve (host_component ''ip://localhost:5555'') = (0, 2130706433)
   \<and> sock_getaddrinfo toy_resolve ''ip://localhost:5555'' = (- 2, None)
   \<and> sock_getaddrinfo toy_resolve ''ip://localhost'' = (CCI_SUCCESS, Some 2130706433)
   \<and> sock_getaddrinfo toy_resolve ''sock://localhost:5555'' = (CCI_EINVAL, None)"
  by (simp add: sock_getaddrinfo_def toy_resolve_def host_component_def Let_def)

subsection \<open>The id bitmap\<close>

lemma sock_get_id_result:
  assumes "sock_get_id k ids draws = Inr (i, ids')"
  shows "i \<in> set draws \<and> SOCK_BLOCK_SIZE k \<noteq> 0
       \<and> i div SOCK_BLOCK_SIZE k < length ids \<and> i mod SOCK_BLOCK_SIZE k < 31
       \<and> ids ! (i div SOCK_BLOCK_SIZE k) AND push_bit (i mod SOCK_BLOCK_SIZE k) 1 = 0
       \<and> ids' = ids[i div SOCK_BLOCK_SIZE k :=
                       ids ! (i div SOCK_BLOCK_SIZE k) OR push_bit (i mod SOCK_BLOCK_SIZE k) 1]"
  using assms
proof (induction draws)
  case Nil
  then show ?case by simp
next
  case (Cons n draws)
  let ?b = "n div SOCK_BLOCK_SIZE k" and ?o = "n mod SOCK_BLOCK_SIZE k"
  from Cons.prems have ok: "SOCK_BLOCK_SIZE k \<noteq> 0" "?b < length ids" "?o < 31"
    by (auto simp: Let_def id_mask_def split: if_splits)
  then have m: "id_mask ?o = Inr (push_bit ?o 1)" by (simp add: id_mask_def)
  show ?case
  proof (cases "(ids ! ?b) AND push_bit ?o 1 = 0")
    case True
    with Cons.prems ok m have "i = n" "ids' = ids[?b := (ids ! ?b) OR push_bit ?o 1]"
      by (auto simp add: Let_def simp del: push_bit_of_1)
    with ok True show ?thesis by (simp del: push_bit_of_1)
  next
    case False
    with Cons.prems ok m have "sock_get_id k ids draws = Inr (i, ids')"
      by (simp add: Let_def del: push_bit_of_1)
    from Cons.IH [OF this] show ?thesis by simp
  qed
qed

lemma bit_test_clear:
  fixes w :: u64
  assumes "off < 31"
  shows "w AND push_bit off 1 = 0 \<longleftrightarrow> \<not> bit w off"
proof
  assume z: "w AND push_bit off 1 = 0"
  show "\<not> bit w off"
  proof
    assume "bit w off"
    with assms have "bit (w AND push_bit off 1) off" by (simp add: bit_simps)
    with z show False by simp
  qed
next
  assume nb: "\<not> bit w off"
  show "w AND push_bit off 1 = 0"
  proof (rule bit_eqI)
    fix n
    show "bit (w AND push_bit off 1) n = bit (0 :: u64) n"
      using nb by (auto simp: bit_simps)
  qed
qed

lemma bit_set_one:
  fixes w :: u64
  assumes "off < 31"
  shows "bit (w OR push_bit off 1) n \<longleftrightarrow> bit w n \<or> n = off"
  using assms by (auto simp: bit_simps)

text \<open>
  The allocator does what C9 says of it: the id it returns had its bit clear, the bit is
  set afterwards, and no other bit of the bitmap changes.
\<close>

lemma sock_get_id_sets_exactly_one_bit:
  assumes "sock_get_id k ids draws = Inr (i, ids')"
  shows "\<not> id_bit k ids i \<and> id_bit k ids' i \<and> length ids' = length ids
       \<and> (\<forall>j. j \<noteq> i \<and> j div SOCK_BLOCK_SIZE k < length ids
              \<longrightarrow> id_bit k ids' j = id_bit k ids j)"
proof -
  let ?bs = "SOCK_BLOCK_SIZE k"
  from sock_get_id_result [OF assms]
  have bs: "?bs \<noteq> 0" and blk: "i div ?bs < length ids" and off: "i mod ?bs < 31"
    and clear: "ids ! (i div ?bs) AND push_bit (i mod ?bs) 1 = 0"
    and ids': "ids' = ids[i div ?bs := ids ! (i div ?bs) OR push_bit (i mod ?bs) 1]"
    by simp_all
  from clear off have "\<not> id_bit k ids i"
    by (simp add: id_bit_def bit_test_clear del: push_bit_of_1)
  moreover from ids' blk off have "id_bit k ids' i"
    by (simp add: id_bit_def bit_set_one del: push_bit_of_1)
  moreover from ids' have "length ids' = length ids" by simp
  moreover have "id_bit k ids' j = id_bit k ids j"
    if "j \<noteq> i" "j div ?bs < length ids" for j
  proof (cases "j div ?bs = i div ?bs")
    case False
    with ids' show ?thesis by (simp add: id_bit_def)
  next
    case True
    have "j mod ?bs \<noteq> i mod ?bs"
    proof
      assume "j mod ?bs = i mod ?bs"
      with True have "j = i" by (metis div_mult_mod_eq)
      with that(1) show False by simp
    qed
    with True ids' blk off show ?thesis
      by (simp add: id_bit_def bit_set_one del: push_bit_of_1)
  qed
  ultimately show ?thesis by blast
qed

lemma id_mask_not_one:
  "id_mask offset = Inr m \<Longrightarrow> 0 < offset \<Longrightarrow> m \<noteq> 1 \<and> m \<noteq> 0"
proof -
  assume m: "id_mask offset = Inr m" and pos: "0 < offset"
  then have off: "offset < 31" and mdef: "m = push_bit offset 1"
    by (auto simp: id_mask_def split: if_splits)
  have b: "bit m offset"
    using off by (simp add: mdef bit_simps)
  have "\<not> bit (1 :: u64) offset"
    using pos by (simp add: bit_simps)
  with b have "m \<noteq> 1" by auto
  moreover from b have "m \<noteq> 0" by auto
  ultimately show ?thesis by simp
qed

text \<open>
  The assertion of \<open>sock_put_id\<close> compares the masked word with 1. The masked word is
  either 0 or the mask itself, so for an id whose offset in its block is not 0 the
  assertion fails whether or not the id is allocated.
\<close>

lemma sock_put_id_assert_fails:
  assumes "0 < ident mod SOCK_BLOCK_SIZE k"
      and "ident mod SOCK_BLOCK_SIZE k < 31"
      and "ident div SOCK_BLOCK_SIZE k < length ids"
      and bs: "SOCK_BLOCK_SIZE k \<noteq> 0"
  shows "sock_put_id k ids ident = Inl Assert_failed"
proof -
  let ?off = "ident mod SOCK_BLOCK_SIZE k"
  let ?w = "ids ! (ident div SOCK_BLOCK_SIZE k)"
  have m: "id_mask ?off = Inr (push_bit ?off 1)"
    using assms(2) by (simp add: id_mask_def)
  have "?w AND push_bit ?off 1 \<noteq> 1"
  proof
    assume eq: "?w AND push_bit ?off 1 = 1"
    have "bit (?w AND push_bit ?off 1) 0" by (simp only: eq) simp
    then have "bit (push_bit ?off (1 :: u64)) 0" by (simp add: bit_and_iff)
    with assms(1) show False by (simp add: bit_simps)
  qed
  with m bs assms(3) show ?thesis
    by (simp add: sock_put_id_def Let_def)
qed

text \<open>
  C9 at a concrete id: with an empty bitmap and \<open>random()\<close> returning 1, the allocator
  returns id 1 and sets bit 1 of block 0; freeing id 1 then fails the assertion, since
  the masked word is 2, not 1. (An id at offset 0, such as 64, is freed without
  failure.)
\<close>

theorem put_id_assertion_fails:
  "sock_get_id toy_consts [0, 0] [1] = Inr (1, [2, 0])
   \<and> sock_put_id toy_consts [2, 0] 1 = Inl Assert_failed
   \<and> sock_get_id toy_consts [0, 0] [64] = Inr (64, [0, 1])
   \<and> sock_put_id toy_consts [0, 1] 64 = Inr [0, 0]"
  by (simp add: sock_put_id_def id_mask_def toy_consts_def Let_def)

subsection \<open>The progress engine and the device's mutex\<close>

lemma is_reliable_iff:
  "is_reliable a \<longleftrightarrow> a = CCI_CONN_ATTR_RU \<or> a = CCI_CONN_ATTR_UU_MC_TX"
  by (cases a) (simp_all add: is_reliable_def c_true_def)

text \<open>Taking the mutex while it is held does not return; no update of a table touches it.\<close>

lemma lock_sdev_held: "sdev_lock s \<Longrightarrow> lock_sdev s = Inl Diverged"
  by (simp add: lock_sdev_def)

lemma lock_sdev_free: "\<not> sdev_lock s \<Longrightarrow> lock_sdev s = Inr (s\<lparr>sdev_lock := True\<rparr>)"
  by (simp add: lock_sdev_def)

lemma sdev_lock_upd_tx [simp]: "sdev_lock (upd_tx t f s) = sdev_lock s"
  by (simp add: upd_tx_def)

lemma sdev_lock_upd_ep [simp]: "sdev_lock (upd_ep e f s) = sdev_lock s"
  by (simp add: upd_ep_def)

lemma sdev_lock_upd_conn [simp]: "sdev_lock (upd_conn c f s) = sdev_lock s"
  by (simp add: upd_conn_def)

text \<open>
  Inside \<open>sock_progress_queued\<close> the mutex is held, so the branch for a connection the
  transport treats as reliable stops at its \<open>pthread_mutex_lock\<close>: the descriptor never
  reaches the pending list.
\<close>

lemma after_send_reliable_blocks:
  "sdev_lock s \<Longrightarrow> is_reliable (sc_attribute (conns s c)) \<Longrightarrow>
   after_send t c e s = Inl Diverged"
  by (simp add: after_send_def lock_sdev_held)

text \<open>
  The second insertion of an event that the timeout branch has already queued is refused:
  on a connection the transport treats as unreliable, \<open>after_send\<close> finds the event
  linked.
\<close>

lemma after_send_linked_event:
  "\<not> is_reliable (sc_attribute (conns s c)) \<Longrightarrow> t \<in> set (ep_evts (eps s e)) \<Longrightarrow>
   after_send t c e s = Inl Corrupted"
  by (simp add: after_send_def insert_tail_evts_def entry_linked_def upd_tx_def)

text \<open>The wait after the loop does not end while a descriptor is queued.\<close>

lemma spin_while_queued_nonempty:
  "queued s \<noteq> [] \<Longrightarrow> spin_while_queued fuel s = Inl Diverged"
  by (induction fuel) simp_all

text \<open>\<open>sock_sendto\<close> returns 0, a byte count or an \<open>errno\<close> value, never \<open>-1\<close>.\<close>

lemma sendto_loop_nonneg:
  "sendto_loop rs ret left eno = Inr (r, e, rs') \<Longrightarrow> left = 0 \<longrightarrow> 0 \<le> ret \<Longrightarrow> 0 \<le> r"
proof (induction rs arbitrary: ret left eno)
  case Nil
  then show ?case by (auto split: if_splits)
next
  case (Cons x rs)
  show ?case
  proof (cases "left = 0")
    case True
    with Cons.prems show ?thesis by simp
  next
    case False
    show ?thesis
    proof (cases x)
      case (Sent n)
      with False Cons.prems(1) have "sendto_loop rs (int n) (left - int n) eno = Inr (r, e, rs')"
        by simp
      then show ?thesis by (rule Cons.IH) simp
    next
      case (Fails n)
      show ?thesis
      proof (cases "int n = EINTR")
        case True
        with False Fails Cons.prems(1) have "sendto_loop rs (- 1) left (int n) = Inr (r, e, rs')"
          by simp
        moreover from False have "left = 0 \<longrightarrow> 0 \<le> (- 1 :: int)" by simp
        ultimately show ?thesis by (rule Cons.IH)
      next
        case no: False
        with False Fails Cons.prems(1) show ?thesis by simp
      qed
    qed
  qed
qed

lemma sock_sendto_nonneg:
  assumes "sock_sendto len s = Inr (ret, s')"
  shows "0 \<le> ret"
proof -
  from assms obtain e rs where l: "sendto_loop (wire s) 0 len (errno s) = Inr (ret, e, rs)"
    by (auto simp: sock_sendto_def split: sum.splits)
  from sendto_loop_nonneg [OF l] show ?thesis by simp
qed

subsection \<open>Sends, timeouts and completions\<close>

lemmas sock_toy_defs = toy_consts_def toy_world_def toy_queued_world_def toy_pending_world_def
  toy_connection_def toy_endpoint_def toy_send_tx_def blank_tx_def

lemma send_again_whole:
  "wire s = Sent n # rest \<Longrightarrow> left = int n \<Longrightarrow> left \<noteq> 0 \<Longrightarrow>
   send_again fuel t e left s = Inr (Next (s\<lparr>wire := rest, errno := errno s\<rparr>))"
  by (cases fuel; cases rest) (simp_all add: send_once_def sock_sendto_def)

text \<open>
  The in-flight pass expires a descriptor as soon as its resend count reaches the smaller
  of the two timeouts; a connection timeout left at 0 therefore expires every descriptor
  on its first pass. The queued pass takes the connection's timeout when it is not 0 and
  the endpoint's otherwise.
\<close>

lemma pending_expired_min:
  "pending_expired tx ep conn \<longleftrightarrow> min (ep_tx_timeout ep) (sc_tx_timeout conn) \<le> tx_resends tx"
  by (auto simp: pending_expired_def min_def)

lemma pending_expired_unset:
  "sc_tx_timeout conn = 0 \<Longrightarrow> 0 \<le> tx_resends tx \<Longrightarrow> pending_expired tx ep conn"
  by (simp add: pending_expired_def)

lemma queued_expired_inherits:
  "queued_expired k tx ep conn \<longleftrightarrow>
     (if sc_tx_timeout conn \<noteq> 0 then sc_tx_timeout conn else ep_tx_timeout ep)
       \<le> tx_resends tx * SOCK_RESEND_TIME k"
  by (simp add: queued_expired_def queued_timeout_def)

text \<open>
  C3 at a concrete descriptor: a send queued on a reliable ordered (RO) connection, met
  by the loop body of \<open>sock_progress_queued\<close>. The test for reliability is a bitwise
  "and" with the enumerators, and \<open>CCI_CONN_ATTR_RO\<close> is 0, so the test fails for RO:
  after the descriptor has been written to the wire it is marked COMPLETED and its event
  is queued, the pending list stays empty, and the descriptor is still on the queued
  list. For RU the test succeeds, and the body then takes the device's mutex, which
  \<open>sock_progress_queued\<close> holds since it started: the body does not return, and the
  descriptor does not reach the pending list either.
\<close>

theorem queued_ro_send_completed_locally:
  "\<not> is_reliable CCI_CONN_ATTR_RO
   \<and> (\<exists>s'. sock_progress_queued_tx toy_consts 0 0 (toy_queued_world CCI_CONN_ATTR_RO 0 0)
              = Inr (Next s')
          \<and> tx_state (txs s' 0) = SOCK_TX_COMPLETED
          \<and> ep_evts (eps s' 0) = [0]
          \<and> pending s' = []
          \<and> queued s' = [0])
   \<and> sdev_lock (toy_queued_world CCI_CONN_ATTR_RU 0 0)
   \<and> sock_progress_queued_tx toy_consts 0 0 (toy_queued_world CCI_CONN_ATTR_RU 0 0)
       = Inl Diverged"
  by (simp add: sock_progress_queued_tx_def upd_tx_def upd_ep_def queued_expired_def
        queued_timeout_def after_send_def insert_tail_evts_def entry_linked_def lock_sdev_def
        Let_def sock_toy_defs send_once_def sock_sendto_def is_reliable_iff)

text \<open>
  C4 at a concrete descriptor: an in-flight send on a connection whose send timeout is
  not set (0), on an endpoint whose send timeout is 100. The timeout the claim names is
  the endpoint's, 100, and the queued pass would not expire the descriptor at its first
  resend; the in-flight pass expires it at once with \<open>CCI_ETIMEDOUT\<close>.
\<close>

theorem pending_pass_ignores_inherited_timeout:
  "queued_timeout (toy_endpoint []) (toy_connection CCI_CONN_ATTR_RU 0) = 100
   \<and> \<not> queued_expired toy_consts ((toy_send_tx 0 SOCK_TX_QUEUED)\<lparr>tx_resends := 1\<rparr>)
         (toy_endpoint []) (toy_connection CCI_CONN_ATTR_RU 0)
   \<and> (\<exists>s'. sock_progress_pending_tx 0 (toy_pending_world CCI_CONN_ATTR_RU 0 0) = Inr (Next s')
          \<and> tx_resends (txs s' 0) = 1
          \<and> tx_send_status (txs s' 0) = CCI_ETIMEDOUT
          \<and> pending s' = []
          \<and> ep_evts (eps s' 0) = [0])"
  by (simp add: sock_progress_pending_tx_def upd_tx_def upd_ep_def pending_expired_def
        queued_expired_def queued_timeout_def remove_pending_def insert_tail_evts_def
        entry_linked_def Let_def sock_toy_defs)

lemma toy_sendv_queued:
  "sock_sendv toy_consts fuel tx0 True 0 0 [] 9 0 (toy_world CCI_CONN_ATTR_RU 0 idle)
     = sock_sendv_queue toy_consts fuel tx0 0 0 0 9 0 (toy_world CCI_CONN_ATTR_RU 0 idle)"
  by (simp add: sock_sendv_def payload_len_def sock_toy_defs is_reliable_iff)

text \<open>
  A send on an RU connection of the toy transport that finds a descriptor \<open>t\<close> (on the
  idle pool, or behind the unassigned \<open>tx\<close>) queues it and runs the progress engine,
  which writes it to the wire and then waits for the mutex it holds.
\<close>

lemma toy_sendv_stuck:
  assumes "(case idle of [] \<Rightarrow> tx0 | t # rest \<Rightarrow> Some t) = Some t" and "t \<notin> set (tl idle)"
  shows "sock_sendv toy_consts fuel tx0 True 0 0 [] 9 0 (toy_world CCI_CONN_ATTR_RU 0 idle)
           = Inl Diverged"
proof -
  have pend: "sock_progress_pending s = Inr (s\<lparr>sdev_lock := False\<rparr>)"
    if "pending s = []" "\<not> sdev_lock s" for s
    using that by (simp add: sock_progress_pending_def lock_sdev_def unlock_sdev_def)
  from assms show ?thesis
    unfolding toy_sendv_queued
    by (cases idle)
       (simp_all add: sock_sendv_queue_def sock_progress_sends_def sock_progress_queued_def
          sock_progress_queued_tx_def pend upd_tx_def upd_ep_def upd_conn_def
          queued_expired_def queued_timeout_def after_send_def Let_def sock_toy_defs
          send_again_whole is_reliable_iff lock_sdev_def unlock_sdev_def
          insert_tail_queued_def dentry_linked_def payload_len_def)
qed

text \<open>
  C5 at a concrete call: a send on a reliable connection when the idle pool is empty. The
  local variable \<open>tx\<close> is never assigned in that case, and the test \<open>!tx\<close> reads
  whatever it holds. Holding a null pointer, the call returns \<open>CCI_ENOBUFS\<close> and leaves
  the state alone; holding anything else (here the address of descriptor 7), the call
  does not fail with \<open>CCI_ENOBUFS\<close>: it fills in and queues that descriptor and never
  returns.
\<close>

theorem sendv_empty_pool_unset_tx:
  "sock_sendv toy_consts fuel None True 0 0 [] 9 0 (toy_world CCI_CONN_ATTR_RU 0 [])
     = Inr (CCI_ENOBUFS, toy_world CCI_CONN_ATTR_RU 0 [])
   \<and> sock_sendv toy_consts fuel (Some 7) True 0 0 [] 9 0 (toy_world CCI_CONN_ATTR_RU 0 [])
     = Inl Diverged"
proof -
  have "sock_sendv toy_consts fuel None True 0 0 [] 9 0 (toy_world CCI_CONN_ATTR_RU 0 [])
     = Inr (CCI_ENOBUFS, toy_world CCI_CONN_ATTR_RU 0 [])"
    unfolding toy_sendv_queued
    by (simp add: sock_sendv_queue_def sock_toy_defs)
  moreover
  have "sock_sendv toy_consts fuel (Some 7) True 0 0 [] 9 0 (toy_world CCI_CONN_ATTR_RU 0 [])
     = Inl Diverged"
    by (rule toy_sendv_stuck [where t = 7]) simp_all
  ultimately show ?thesis by simp
qed

section \<open>Properties of remote memory access\<close>

lemma length_place_fragment [simp]: "length (place_fragment dst p) = length dst"
  by (cases p) (simp add: place_fragment_def)



text \<open>The fragments of a range: where they start, how long they are, and that they cover it.\<close>

lemma length_rma_packets [simp]:
  "length (rma_packets src src_off dst_off frag len) = (len + frag - 1) div frag"
  by (simp add: rma_packets_def rma_windows_def)









end
